theory Spec2Isabelle
  imports Complex_Main "HOL-Library.Sublist"
begin

section \<open>Strings of the host language\<close>

text \<open>
  The classifier works on JavaScript strings. A text is modelled as a \<^typ>\<open>string\<close>, each
  \<^typ>\<open>char\<close> standing for one code unit in the range U+0000 .. U+00FF (Latin-1), which
  covers every character that occurs in the keyword tables and in the patterns of the
  source (ASCII and the accented letters of the French vocabulary). On this range
  \<open>toLowerCase\<close> maps code unit to code unit and keeps the length.
\<close>

definition code_unit :: "char \<Rightarrow> nat" where
  "code_unit c = of_char c"

definition e_acute :: char where "e_acute = CHR 0xE9"
definition e_grave :: char where "e_grave = CHR 0xE8"
definition e_circ :: char where "e_circ = CHR 0xEA"
definition a_grave :: char where "a_grave = CHR 0xE0"
definition c_cedil :: char where "c_cedil = CHR 0xE7"

definition isDigit :: "char \<Rightarrow> bool" where
  "isDigit c = (48 \<le> code_unit c \<and> code_unit c \<le> 57)"

text \<open>\<open>\w\<close> of a pattern without the unicode flag: \<open>[A-Za-z0-9_]\<close>.\<close>

definition isWordChar :: "char \<Rightarrow> bool" where
  "isWordChar c =
     ((65 \<le> code_unit c \<and> code_unit c \<le> 90) \<or> (97 \<le> code_unit c \<and> code_unit c \<le> 122)
      \<or> isDigit c \<or> code_unit c = 95)"

text \<open>Line terminators (\<open>.\<close> excludes them, \<open>^\<close> with the m flag follows them).\<close>

definition isLineTerminator :: "char \<Rightarrow> bool" where
  "isLineTerminator c = (code_unit c = 10 \<or> code_unit c = 13)"

definition isLineFeed :: "char \<Rightarrow> bool" where
  "isLineFeed c = (code_unit c = 10)"

text \<open>\<open>\s\<close> and the characters removed by \<open>trim\<close>: tab, LF, VT, FF, CR, space, NBSP.\<close>

definition isWhiteSpace :: "char \<Rightarrow> bool" where
  "isWhiteSpace c = (code_unit c \<in> {9, 10, 11, 12, 13, 32, 160})"

text \<open>\<open>String.prototype.toLowerCase\<close>, one code unit: A-Z and the capital letters
  U+00C0 .. U+00DE (without the multiplication sign U+00D7) move up by 32.\<close>

definition toLowerCaseChar :: "char \<Rightarrow> char" where
  "toLowerCaseChar c =
     (let n = code_unit c in
      if (65 \<le> n \<and> n \<le> 90) \<or> (192 \<le> n \<and> n \<le> 222 \<and> 215 \<noteq> n)
      then char_of (n + 32) else c)"

definition toLowerCase :: "string \<Rightarrow> string" where
  "toLowerCase s = map toLowerCaseChar s"

text \<open>\<open>s.includes(k)\<close>: \<open>k\<close> occurs in \<open>s\<close> as a contiguous run.\<close>

definition str_includes :: "string \<Rightarrow> string \<Rightarrow> bool" where
  "str_includes s k = sublist k s"

text \<open>\<open>Array.prototype.join\<close> on an array of strings.\<close>

fun join :: "string \<Rightarrow> string list \<Rightarrow> string" where
  "join sep [] = []"
| "join sep [x] = x"
| "join sep (x # y # ys) = x @ sep @ join sep (y # ys)"

text \<open>\<open>s.split('\n')\<close>: the pieces between line feeds; the empty string gives one
  empty piece.\<close>

fun split_lines :: "string \<Rightarrow> string list" where
  "split_lines [] = [[]]"
| "split_lines (c # cs) =
     (if isLineFeed c then [] # split_lines cs
      else (case split_lines cs of [] \<Rightarrow> [[c]] | l # ls \<Rightarrow> (c # l) # ls))"

text \<open>\<open>s.trim()\<close>.\<close>

definition trim :: "string \<Rightarrow> string" where
  "trim s = rev (dropWhile isWhiteSpace (rev (dropWhile isWhiteSpace s)))"

text \<open>Decimal rendering of a number inside a template literal.\<close>

definition digit_char :: "nat \<Rightarrow> char" where
  "digit_char d = ''0123456789'' ! d"

fun show_nat :: "nat \<Rightarrow> string" where
  "show_nat n = (if n < 10 then [digit_char n] else show_nat (n div 10) @ [digit_char (n mod 10)])"

declare show_nat.simps [simp del]

definition show_int :: "int \<Rightarrow> string" where
  "show_int i = (if i < 0 then CHR ''-'' # show_nat (nat (- i)) else show_nat (nat i))"


section \<open>Regular expressions\<close>

text \<open>
  The patterns of the source use literals, the classes \<open>\s \d \w .\<close>, bracket sets,
  sequence, alternation, \<open>*\<close> and \<open>+\<close> on a single character set, \<open>?\<close>, the word
  boundary \<open>\b\<close> and \<open>^\<close> under the m flag. They are kept as syntax trees.
\<close>

datatype citem = C char | WS | DG | WD | Dot

datatype rx =
    Eps
  | Set "citem list"
  | Seq rx rx
  | Alt rx rx
  | Star "citem list"
  | Plus "citem list"
  | Opt rx
  | WordB
  | Bol

text \<open>A pattern literal with its flags: \<open>RegExp_i\<close> carries the i flag.\<close>

datatype regexp = RegExp rx | RegExp_i rx

text \<open>Canonicalisation of the i flag (no unicode flag): the upper-case code unit;
  the letters whose upper case lies outside the modelled range stay as they are.\<close>

definition canonicalize :: "char \<Rightarrow> char" where
  "canonicalize c =
     (let n = code_unit c in
      if (97 \<le> n \<and> n \<le> 122) \<or> (224 \<le> n \<and> n \<le> 254 \<and> 247 \<noteq> n)
      then char_of (n - 32) else c)"

fun item_has :: "bool \<Rightarrow> citem \<Rightarrow> char \<Rightarrow> bool" where
  "item_has ic (C c) x = (if ic then canonicalize x = canonicalize c else x = c)"
| "item_has ic WS x = isWhiteSpace x"
| "item_has ic DG x = isDigit x"
| "item_has ic WD x = isWordChar x"
| "item_has ic Dot x = (if isLineTerminator x then False else True)"

definition set_has :: "bool \<Rightarrow> citem list \<Rightarrow> char \<Rightarrow> bool" where
  "set_has ic cs x = list_ex (\<lambda>i. item_has ic i x) cs"

text \<open>
  Matching is computed on position masks: a mask has one entry for each position
  \<open>0 .. length t\<close> of the text \<open>t\<close>. \<open>starts ic r t m\<close> marks the positions from which
  \<open>r\<close> can match and stop at a position marked in \<open>m\<close>.
\<close>

definition set_back :: "(char \<Rightarrow> bool) \<Rightarrow> string \<Rightarrow> bool list \<Rightarrow> bool list" where
  "set_back P t m = map2 (\<lambda>x b. P x \<and> b) t (tl m) @ [False]"

fun star_back :: "(char \<Rightarrow> bool) \<Rightarrow> string \<Rightarrow> bool list \<Rightarrow> bool list" where
  "star_back P (x # xs) (b # bs) =
     (case star_back P xs bs of [] \<Rightarrow> [b] | r # rs \<Rightarrow> (b \<or> (P x \<and> r)) # r # rs)"
| "star_back P [] bs = bs"
| "star_back P xs [] = []"

text \<open>\<open>\b\<close> holds where exactly one of the two neighbours is a word character.\<close>

fun wordb_mask :: "bool \<Rightarrow> string \<Rightarrow> bool list" where
  "wordb_mask a [] = [a]"
| "wordb_mask a (x # xs) = (if a then (if isWordChar x then False else True) else isWordChar x)
                            # wordb_mask (isWordChar x) xs"

text \<open>\<open>^\<close> under the m flag holds at position 0 and behind a line terminator.\<close>

fun bol_mask :: "bool \<Rightarrow> string \<Rightarrow> bool list" where
  "bol_mask a [] = [a]"
| "bol_mask a (x # xs) = a # bol_mask (isLineTerminator x) xs"

primrec starts :: "bool \<Rightarrow> rx \<Rightarrow> string \<Rightarrow> bool list \<Rightarrow> bool list" where
  "starts ic Eps t m = m"
| "starts ic (Set cs) t m = set_back (set_has ic cs) t m"
| "starts ic (Seq a b) t m = starts ic a t (starts ic b t m)"
| "starts ic (Alt a b) t m = map2 (\<or>) (starts ic a t m) (starts ic b t m)"
| "starts ic (Star cs) t m = star_back (set_has ic cs) t m"
| "starts ic (Plus cs) t m = set_back (set_has ic cs) t (star_back (set_has ic cs) t m)"
| "starts ic (Opt a) t m = map2 (\<or>) m (starts ic a t m)"
| "starts ic WordB t m = map2 (\<and>) (wordb_mask False t) m"
| "starts ic Bol t m = map2 (\<and>) (bol_mask True t) m"

fun match_starts :: "regexp \<Rightarrow> string \<Rightarrow> bool list" where
  "match_starts (RegExp r) t = starts False r t (replicate (Suc (length t)) True)"
| "match_starts (RegExp_i r) t = starts True r t (replicate (Suc (length t)) True)"

text \<open>\<open>pattern.test(text)\<close>: a match starts somewhere.\<close>

definition test :: "regexp \<Rightarrow> string \<Rightarrow> bool" where
  "test p t = list_ex id (match_starts p t)"

text \<open>
  \<open>(text.match(pattern) ?? []).length\<close> for a pattern with the g flag whose matches
  cannot overlap: the number of positions at which a match starts. The source uses it
  for \<open>/\?/g\<close> (one character) and for the keyword pattern anchored by \<open>^\<close> under the m
  flag, whose matches stay inside one line.
\<close>

definition match_count :: "regexp \<Rightarrow> string \<Rightarrow> nat" where
  "match_count p t = length (filter id (match_starts p t))"

text \<open>Builders for pattern syntax.\<close>

definition str :: "string \<Rightarrow> rx" where
  "str s = foldr (\<lambda>c r. Seq (Set [C c]) r) s Eps"

definition seqs :: "rx list \<Rightarrow> rx" where
  "seqs rs = foldr Seq rs Eps"

fun alts :: "rx list \<Rightarrow> rx" where
  "alts [] = Eps"
| "alts [r] = r"
| "alts (r # s # rs) = Alt r (alts (s # rs))"

definition strs :: "string list \<Rightarrow> rx" where
  "strs ss = alts (map str ss)"


section \<open>Data model (types.ts)\<close>

datatype role = System | User | Assistant | Tool

datatype content_part = TextPart string | ImageUrlPart string

text \<open>\<open>content\<close> is a string or an array of parts; \<open>OtherContent\<close> stands for any other
  run-time value (such as \<open>null\<close>), for which \<open>extractTextContent\<close> has its last branch.\<close>

datatype content = StringContent string | ArrayContent "content_part list" | OtherContent

record chat_message =
  role :: role
  content :: content

text \<open>The three thresholds are whole numbers (the configuration loader reads them with
  \<open>parseInt\<close>); they may be negative.\<close>

record thresholds =
  minLengthForPower :: int
  minCodeLinesForPower :: int
  minScoreForPower :: int

record score_result =
  score :: int
  signals :: "string list"

record classification_result = score_result +
  usePowerModel :: bool
  reason :: string


section \<open>Text extraction (classifier.ts)\<close>

fun is_text_part :: "content_part \<Rightarrow> bool" where
  "is_text_part (TextPart s) = True"
| "is_text_part (ImageUrlPart u) = False"

fun the_text :: "content_part \<Rightarrow> string" where
  "the_text (TextPart s) = s"
| "the_text (ImageUrlPart u) = []"

text \<open>The callback of \<open>messages.map\<close> in \<open>extractTextContent\<close>.\<close>

fun message_text :: "chat_message \<Rightarrow> string" where
  "message_text msg =
     (case content msg of
        StringContent s \<Rightarrow> s
      | ArrayContent parts \<Rightarrow> join ''\<newline>'' (map the_text (filter is_text_part parts))
      | OtherContent \<Rightarrow> [])"

definition extractTextContent :: "chat_message list \<Rightarrow> string" where
  "extractTextContent messages = join ''\<newline>'' (map message_text messages)"

text \<open>The contract of the text extractor as the specification words it: the texts of
  the text-typed parts, each followed by a newline except the last.\<close>

fun spec_parts_text :: "content_part list \<Rightarrow> string" where
  "spec_parts_text [] = []"
| "spec_parts_text (ImageUrlPart u # ps) = spec_parts_text ps"
| "spec_parts_text (TextPart s # ps) =
     (if list_ex is_text_part ps then s @ ''\<newline>'' @ spec_parts_text ps else s)"

fun spec_message_text :: "chat_message \<Rightarrow> string" where
  "spec_message_text msg =
     (case content msg of
        StringContent s \<Rightarrow> s
      | ArrayContent parts \<Rightarrow> spec_parts_text parts
      | OtherContent \<Rightarrow> [])"

fun spec_extract :: "chat_message list \<Rightarrow> string" where
  "spec_extract [] = []"
| "spec_extract [m] = spec_message_text m"
| "spec_extract (m # n # ms) = spec_message_text m @ ''\<newline>'' @ spec_extract (n # ms)"


section \<open>Signal detectors (classifier.ts)\<close>

text \<open>
  The repository holds two revisions of the classifier: \<^verbatim>\<open>src/classifier.ts\<close> (English
  vocabulary) and a later one with English and French vocabulary, two more detectors and
  higher weights. Functions that are the same in both are modelled once; where the
  revisions differ, the definition from the later revision carries the suffix \<open>_enfr\<close>.
\<close>

subsection \<open>Vocabularies\<close>

definition POWER_KEYWORDS :: "string list" where
  "POWER_KEYWORDS =
    [''architect'', ''architecture'', ''design pattern'', ''refactor'', ''restructure'',
     ''scalab'', ''microservice'', ''distributed'', ''system design'',
     ''analyze'', ''analyse'', ''debug'', ''diagnose'', ''investigate'', ''root cause'',
     ''performance'', ''optimize'', ''bottleneck'', ''memory leak'',
     ''implement'', ''algorithm'', ''data structure'', ''recursive'', ''dynamic programming'',
     ''concurrency'', ''async'', ''thread'', ''race condition'', ''deadlock'',
     ''security'', ''vulnerability'', ''exploit'', ''injection'', ''authentication'',
     ''step by step'', ''walk me through'', ''explain how'', ''compare and contrast'',
     ''pros and cons'', ''trade-off'', ''tradeoff'', ''best approach'',
     ''research'', ''synthesize'', ''comprehensive'', ''in-depth'', ''thorough'',
     ''literature review'', ''state of the art'']"

definition SIMPLE_KEYWORDS :: "string list" where
  "SIMPLE_KEYWORDS =
    [''hello'', ''hi'', ''thanks'', ''thank you'', ''ok'', ''yes'', ''no'',
     ''what time'', ''weather'', ''reminder'', ''status'', ''list'',
     ''send'', ''message'', ''email'', ''check'']"

definition PROGRAMMING_LANGUAGES :: "string list" where
  "PROGRAMMING_LANGUAGES =
    [''typescript'', ''javascript'', ''python'', ''rust'', ''go'', ''java'',
     ''c++'', ''cpp'', ''solidity'', ''sql'', ''graphql'']"

definition POWER_KEYWORDS_enfr :: "string list" where
  "POWER_KEYWORDS_enfr =
    [''architect'', ''architecture'', ''design pattern'', ''refactor'', ''restructure'',
     ''scalab'', ''microservice'', ''distributed'', ''system design'',
     ''restructurer'', ''conception'',
     ''analyze'', ''analyse'', ''debug'', ''diagnose'', ''investigate'', ''root cause'',
     ''performance'', ''optimize'', ''bottleneck'', ''memory leak'',
     ''analyser'', ''d'' @ [e_acute] @ ''bugger'', ''diagnostiquer'',
     ''enqu'' @ [e_circ] @ ''ter'', ''cause racine'',
     ''optimiser'', ''goulot'', ''fuite m'' @ [e_acute] @ ''moire'',
     ''implement'', ''algorithm'', ''data structure'', ''recursive'', ''dynamic programming'',
     ''concurrency'', ''async'', ''thread'', ''race condition'', ''deadlock'',
     ''security'', ''vulnerability'', ''exploit'', ''injection'', ''authentication'',
     ''impl'' @ [e_acute] @ ''menter'', ''algorithme'',
     ''structure de donn'' @ [e_acute] @ ''es'', ''r'' @ [e_acute] @ ''cursif'',
     ''programmation dynamique'',
     ''concurrence'', ''authentification'',
     ''vuln'' @ [e_acute] @ ''rabilit'' @ [e_acute],
     ''step by step'', ''walk me through'', ''explain how'', ''compare and contrast'',
     ''pros and cons'', ''trade-off'', ''tradeoff'', ''best approach'',
     [e_acute] @ ''tape par '' @ [e_acute] @ ''tape'', ''explique-moi'', ''explique moi'',
     ''comment fonctionne'',
     ''compare'', ''avantages et inconv'' @ [e_acute] @ ''nients'', ''pour et contre'',
     ''meilleure approche'',
     ''explain'', ''describe'', ''elaborate'', ''summarize'', ''summary'',
     ''explique'', ''expliquer'', ''d'' @ [e_acute] @ ''cris'', ''d'' @ [e_acute] @ ''crire'',
     ''r'' @ [e_acute] @ ''sume'', ''r'' @ [e_acute] @ ''sumer'',
     ''r'' @ [e_acute] @ ''sum'' @ [e_acute],
     ''why does'', ''why is'', ''how does'', ''how do'', ''how can'',
     ''pourquoi'', ''comment faire'', ''comment est-ce'',
     ''research'', ''synthesize'', ''comprehensive'', ''in-depth'', ''thorough'',
     ''literature review'', ''state of the art'',
     ''recherche'', ''synth'' @ [e_acute] @ ''tiser'', ''approfondi'', ''complet'']"

definition SIMPLE_KEYWORDS_enfr :: "string list" where
  "SIMPLE_KEYWORDS_enfr =
    [''hello'', ''hi'', ''thanks'', ''thank you'', ''ok'', ''yes'', ''no'',
     ''salut'', ''bonjour'', ''coucou'', ''merci'', ''oui'', ''non'',
     [c_cedil] @ ''a va'', ''ca va'',
     ''what time'', ''weather'', ''reminder'', ''status'', ''list'',
     ''send'', ''message'', ''email'', ''check'',
     ''quelle heure'', ''m'' @ [e_acute] @ ''t'' @ [e_acute] @ ''o'', ''meteo'', ''rappel'',
     ''statut'', ''liste'',
     ''envoie'', ''envoyer'', ''message'', ''mail'',
     ''v'' @ [e_acute] @ ''rifie'', ''v'' @ [e_acute] @ ''rifier'']"

subsection \<open>Code lines\<close>

definition fence :: string where
  "fence = ''```''"

text \<open>
  \<open>text.match(/```[\s\S]*?```/g) ?? []\<close>: the scan looks for an opening fence, then for
  the nearest closing fence behind it, and goes on behind that; an opening fence with no
  closing fence gives no block. The first argument is \<open>None\<close> outside a block and holds
  the characters read since the opening fence inside one.
\<close>

fun scan_blocks :: "string option \<Rightarrow> string \<Rightarrow> string list" where
  "scan_blocks None [] = []"
| "scan_blocks None (c # cs) =
     (if prefix fence (c # cs) then scan_blocks (Some []) (drop 2 cs)
      else scan_blocks None cs)"
| "scan_blocks (Some body) [] = []"
| "scan_blocks (Some body) (c # cs) =
     (if prefix fence (c # cs) then (fence @ body @ fence) # scan_blocks None (drop 2 cs)
      else scan_blocks (Some (body @ [c])) cs)"

definition codeBlocks :: "string \<Rightarrow> string list" where
  "codeBlocks text = scan_blocks None text"

text \<open>\<open>block.replace(/```\w*\n?/g, '')\<close>: every fence goes, with the word characters
  and the one line feed that follow it.\<close>

fun drop_line_feed :: "string \<Rightarrow> string" where
  "drop_line_feed [] = []"
| "drop_line_feed (c # cs) = (if isLineFeed c then cs else c # cs)"

function strip_fence_tags :: "string \<Rightarrow> string" where
  "strip_fence_tags [] = []"
| "strip_fence_tags (c # cs) =
     (if prefix fence (c # cs)
      then strip_fence_tags (drop_line_feed (dropWhile isWordChar (drop 2 cs)))
      else c # strip_fence_tags cs)"
  by pat_completeness auto
termination
proof (relation "measure length")
  show "wf (measure length)" by simp
next
  fix c :: char and cs :: string
  have "length (drop_line_feed s) \<le> length s" for s
    by (cases s) simp_all
  then have "length (drop_line_feed (dropWhile isWordChar (drop 2 cs)))
          \<le> length (dropWhile isWordChar (drop 2 cs))" .
  also have "\<dots> \<le> length (drop 2 cs)"
    by (rule length_dropWhile_le)
  also have "\<dots> \<le> length cs"
    by simp
  finally show "(drop_line_feed (dropWhile isWordChar (drop 2 cs)), c # cs) \<in> measure length"
    by simp
next
  fix c :: char and cs :: string
  show "(cs, c # cs) \<in> measure length" by simp
qed

text \<open>\<open>.replace(/```$/g, '')\<close>: a fence at the very end goes.\<close>

definition strip_final_fence :: "string \<Rightarrow> string" where
  "strip_final_fence s = (if suffix fence s then take (length s - 3) s else s)"

definition block_code_lines :: "string \<Rightarrow> nat" where
  "block_code_lines block =
     (let code = strip_final_fence (strip_fence_tags block)
      in length (filter (\<lambda>line. length (trim line) > 0) (split_lines code)))"

text \<open>\<open>/^[\t ]*(?:const|let|var|function|class|import|export|if|for|while|return|async|await)\b/gm\<close>\<close>

definition inline_code_pattern :: regexp where
  "inline_code_pattern =
     RegExp (seqs [Bol, Star [C (CHR 0x09), C CHR '' ''],
                   strs [''const'', ''let'', ''var'', ''function'', ''class'', ''import'',
                         ''export'', ''if'', ''for'', ''while'', ''return'', ''async'', ''await''],
                   WordB])"

definition countCodeLines :: "string \<Rightarrow> nat" where
  "countCodeLines text =
     (let totalLines = foldl (\<lambda>total block. total + block_code_lines block) 0 (codeBlocks text);
          inlineCodeLines = match_count inline_code_pattern text
      in totalLines + inlineCodeLines)"

subsection \<open>Keyword counting\<close>

definition countKeywordMatches :: "string \<Rightarrow> string list \<Rightarrow> nat" where
  "countKeywordMatches text keywords =
     (let lowerText = toLowerCase text
      in length (filter (\<lambda>kw. str_includes lowerText (toLowerCase kw)) keywords))"

subsection \<open>Pattern families\<close>

text \<open>Pieces shared by several patterns. In the comments a letter outside ASCII is
  written as its escape (\<open>\u00e9\<close> is e with acute accent).\<close>

definition ws1 :: rx where "ws1 = Plus [WS]"
definition ws0 :: rx where "ws0 = Star [WS]"
definition word1 :: rx where "word1 = Plus [WD]"
definition any0 :: rx where "any0 = Star [Dot]"
definition ws_comma1 :: rx where "ws_comma1 = Plus [WS, C CHR '','']"
definition ws_dash0 :: rx where "ws_dash0 = Star [WS, C CHR ''-'']"
definition moi_nous_opt :: rx where "moi_nous_opt = Opt (strs [''moi'', ''nous''])"

definition multiStepPatterns :: "regexp list" where
  \<open>multiStepPatterns =
    [\<comment> \<open>\<open>/first[\s,]+.*then/i\<close>\<close>
     RegExp_i (seqs [str ''first'', ws_comma1, any0, str ''then'']),
     \<comment> \<open>\<open>/step\s*\d/i\<close>\<close>
     RegExp_i (seqs [str ''step'', ws0, Set [DG]]),
     \<comment> \<open>\<open>/\d+\.\s+\w+.*\n.*\d+\.\s+\w+/\<close>\<close>
     RegExp (seqs [Plus [DG], str ''.'', ws1, word1, any0, Set [C (CHR 0x0A)], any0,
                   Plus [DG], str ''.'', ws1, word1]),
     \<comment> \<open>\<open>/compare\s+\w+\s+(and|vs|versus|with)\s+\w+/i\<close>\<close>
     RegExp_i (seqs [str ''compare'', ws1, word1, ws1,
                     strs [''and'', ''vs'', ''versus'', ''with''], ws1, word1]),
     \<comment> \<open>\<open>/what\s+are\s+the\s+(differences?|similarities?)/i\<close>\<close>
     RegExp_i (seqs [str ''what'', ws1, str ''are'', ws1, str ''the'', ws1,
                     Alt (Seq (str ''difference'') (Opt (str ''s'')))
                         (Seq (str ''similaritie'') (Opt (str ''s'')))]),
     \<comment> \<open>\<open>/how\s+(would|should|can|do)\s+(you|i|we)\s+\w+.*\?/i\<close>\<close>
     RegExp_i (seqs [str ''how'', ws1, strs [''would'', ''should'', ''can'', ''do''], ws1,
                     strs [''you'', ''i'', ''we''], ws1, word1, any0, str ''?''])]\<close>

definition detectMultiStepReasoning :: "string \<Rightarrow> bool" where
  "detectMultiStepReasoning text = list_ex (\<lambda>pattern. test pattern text) multiStepPatterns"

definition multiStepPatterns_enfr :: "regexp list" where
  \<open>multiStepPatterns_enfr = multiStepPatterns @
    [\<comment> \<open>\<open>/d'abord[\s,]+.*ensuite/i\<close>\<close>
     RegExp_i (seqs [str ''d'abord'', ws_comma1, any0, str ''ensuite'']),
     \<comment> \<open>\<open>/premi[\u00e8e]rement[\s,]+.*puis/i\<close>\<close>
     RegExp_i (seqs [str ''premi'', Set [C e_grave, C CHR ''e''], str ''rement'', ws_comma1,
                     any0, str ''puis'']),
     \<comment> \<open>\<open>/\u00e9tape\s*\d/i\<close>\<close>
     RegExp_i (seqs [str (e_acute # ''tape''), ws0, Set [DG]]),
     \<comment> \<open>\<open>/compare[rz]?\s+\w+\s+(et|avec|\u00e0|vs)\s+\w+/i\<close>\<close>
     RegExp_i (seqs [str ''compare'', Opt (Set [C CHR ''r'', C CHR ''z'']), ws1, word1, ws1,
                     strs [''et'', ''avec'', [a_grave], ''vs''], ws1, word1]),
     \<comment> \<open>\<open>/quelles?\s+(sont|est)\s+(les?\s+)?(diff\u00e9rences?|similitudes?)/i\<close>\<close>
     RegExp_i (seqs [str ''quelle'', Opt (str ''s''), ws1, strs [''sont'', ''est''], ws1,
                     Opt (seqs [str ''le'', Opt (str ''s''), ws1]),
                     Alt (Seq (str (''diff'' @ [e_acute] @ ''rence'')) (Opt (str ''s'')))
                         (Seq (str ''similitude'') (Opt (str ''s'')))]),
     \<comment> \<open>\<open>/comment\s+(puis-je|peut-on|faire|est-ce)/i\<close>\<close>
     RegExp_i (seqs [str ''comment'', ws1, strs [''puis-je'', ''peut-on'', ''faire'', ''est-ce'']]),
     \<comment> \<open>\<open>/explique[\s-]*(moi|nous)?/i\<close>\<close>
     RegExp_i (seqs [str ''explique'', ws_dash0, moi_nous_opt]),
     \<comment> \<open>\<open>/pourquoi\s+(est-ce|faut-il|ne\s+pas)/i\<close>\<close>
     RegExp_i (seqs [str ''pourquoi'', ws1,
                     alts [str ''est-ce'', str ''faut-il'', seqs [str ''ne'', ws1, str ''pas'']]]),
     \<comment> \<open>\<open>/r[\u00e9e]sume[\s-]*(moi|nous)?/i\<close>\<close>
     RegExp_i (seqs [str ''r'', Set [C e_acute, C CHR ''e''], str ''sume'', ws_dash0, moi_nous_opt]),
     \<comment> \<open>\<open>/analyse[\s-]*(moi|nous)?\s+(ce|le|la|les|cet)/i\<close>\<close>
     RegExp_i (seqs [str ''analyse'', ws_dash0, moi_nous_opt, ws1,
                     strs [''ce'', ''le'', ''la'', ''les'', ''cet'']]),
     \<comment> \<open>\<open>/d[\u00e9e]cris[\s-]*(moi|nous)?/i\<close>\<close>
     RegExp_i (seqs [str ''d'', Set [C e_acute, C CHR ''e''], str ''cris'', ws_dash0, moi_nous_opt]),
     \<comment> \<open>\<open>/aide[\s-]*(moi|nous)?\s+[\u00e0a]\s+(comprendre|d[\u00e9e]bugger|analyser|r[\u00e9e]soudre|trouver)/i\<close>\<close>
     RegExp_i (seqs [str ''aide'', ws_dash0, moi_nous_opt, ws1, Set [C a_grave, C CHR ''a''], ws1,
                     alts [str ''comprendre'',
                           seqs [str ''d'', Set [C e_acute, C CHR ''e''], str ''bugger''],
                           str ''analyser'',
                           seqs [str ''r'', Set [C e_acute, C CHR ''e''], str ''soudre''],
                           str ''trouver'']]),
     \<comment> \<open>\<open>/help\s+me\s+(understand|debug|analyze|fix|find|solve)/i\<close>\<close>
     RegExp_i (seqs [str ''help'', ws1, str ''me'', ws1,
                     strs [''understand'', ''debug'', ''analyze'', ''fix'', ''find'', ''solve'']])]\<close>

definition detectMultiStepReasoning_enfr :: "string \<Rightarrow> bool" where
  "detectMultiStepReasoning_enfr text =
     list_ex (\<lambda>pattern. test pattern text) multiStepPatterns_enfr"

definition debuggingPatterns :: "regexp list" where
  \<open>debuggingPatterns =
    [\<comment> \<open>\<open>/error:/i\<close>, \<open>/exception:/i\<close>, \<open>/traceback/i\<close>\<close>
     RegExp_i (str ''error:''),
     RegExp_i (str ''exception:''),
     RegExp_i (str ''traceback''),
     \<comment> \<open>\<open>/stack\s*trace/i\<close>\<close>
     RegExp_i (seqs [str ''stack'', ws0, str ''trace'']),
     \<comment> \<open>\<open>/failed\s+to/i\<close>\<close>
     RegExp_i (seqs [str ''failed'', ws1, str ''to'']),
     \<comment> \<open>\<open>/doesn't\s+work/i\<close>\<close>
     RegExp_i (seqs [str ''doesn't'', ws1, str ''work'']),
     \<comment> \<open>\<open>/not\s+working/i\<close>\<close>
     RegExp_i (seqs [str ''not'', ws1, str ''working'']),
     \<comment> \<open>\<open>/bug\b/i\<close>\<close>
     RegExp_i (seqs [str ''bug'', WordB]),
     \<comment> \<open>\<open>/fix\s+(this|the|my)/i\<close>\<close>
     RegExp_i (seqs [str ''fix'', ws1, strs [''this'', ''the'', ''my'']])]\<close>

definition detectDebugging :: "string \<Rightarrow> bool" where
  "detectDebugging text = list_ex (\<lambda>pattern. test pattern text) debuggingPatterns"

definition ce_le_mon :: rx where
  "ce_le_mon = strs [''ce'', ''le'', ''mon'', ''cette'', ''la'', ''ma'']"

definition fonctionne_pas :: rx where
  "fonctionne_pas = seqs [strs [''fonctionne'', ''marche''], ws1, strs [''pas'', ''plus'']]"

definition debuggingPatterns_enfr :: "regexp list" where
  \<open>debuggingPatterns_enfr = debuggingPatterns @
    [\<comment> \<open>\<open>/erreur\s*:/i\<close>\<close>
     RegExp_i (seqs [str ''erreur'', ws0, str '':'']),
     \<comment> \<open>\<open>/ne\s+(fonctionne|marche)\s+(pas|plus)/i\<close>\<close>
     RegExp_i (seqs [str ''ne'', ws1, fonctionne_pas]),
     \<comment> \<open>\<open>/\u00e7a\s+(ne\s+)?(fonctionne|marche)\s+(pas|plus)/i\<close>\<close>
     RegExp_i (seqs [str (c_cedil # ''a''), ws1, Opt (seqs [str ''ne'', ws1]), fonctionne_pas]),
     \<comment> \<open>\<open>/corrige[rz]?\s+(ce|le|mon|cette|la|ma)/i\<close>\<close>
     RegExp_i (seqs [str ''corrige'', Opt (Set [C CHR ''r'', C CHR ''z'']), ws1, ce_le_mon]),
     \<comment> \<open>\<open>/r\u00e9pare[rz]?\s+(ce|le|mon|cette|la|ma)/i\<close>\<close>
     RegExp_i (seqs [str (''r'' @ [e_acute] @ ''pare''), Opt (Set [C CHR ''r'', C CHR ''z'']), ws1,
                     ce_le_mon]),
     \<comment> \<open>\<open>/probl\u00e8me\s+(avec|de|dans)/i\<close>\<close>
     RegExp_i (seqs [str (''probl'' @ [e_grave] @ ''me''), ws1, strs [''avec'', ''de'', ''dans'']]),
     \<comment> \<open>\<open>/\u00e9choue\s+\u00e0/i\<close>\<close>
     RegExp_i (seqs [str (e_acute # ''choue''), ws1, str [a_grave]]),
     \<comment> \<open>\<open>/a\s+\u00e9chou\u00e9/i\<close>\<close>
     RegExp_i (seqs [str ''a'', ws1, str ([e_acute] @ ''chou'' @ [e_acute])])]\<close>

definition detectDebugging_enfr :: "string \<Rightarrow> bool" where
  "detectDebugging_enfr text = list_ex (\<lambda>pattern. test pattern text) debuggingPatterns_enfr"

definition deepQuestionPatterns :: "regexp list" where
  \<open>deepQuestionPatterns =
    [\<comment> \<open>\<open>/\b(why|pourquoi)\b.*\?/i\<close>\<close>
     RegExp_i (seqs [WordB, strs [''why'', ''pourquoi''], WordB, any0, str ''?'']),
     \<comment> \<open>\<open>/\bhow\s+(does|do|can|could|would|is|are)\b.*\?/i\<close>\<close>
     RegExp_i (seqs [WordB, str ''how'', ws1,
                     strs [''does'', ''do'', ''can'', ''could'', ''would'', ''is'', ''are''],
                     WordB, any0, str ''?'']),
     \<comment> \<open>\<open>/\bwhat\s+(is|are)\s+the\s+(difference|reason|cause|mechanism)/i\<close>\<close>
     RegExp_i (seqs [WordB, str ''what'', ws1, strs [''is'', ''are''], ws1, str ''the'', ws1,
                     strs [''difference'', ''reason'', ''cause'', ''mechanism'']]),
     \<comment> \<open>\<open>/\bqu'?est[- ]ce\s+que?\b/i\<close>\<close>
     RegExp_i (seqs [WordB, str ''qu'', Opt (Set [C (CHR 0x27)]), str ''est'',
                     Set [C CHR ''-'', C CHR '' ''], str ''ce'', ws1, str ''qu'', Opt (str ''e''),
                     WordB]),
     \<comment> \<open>\<open>/\bcomment\s+(\u00e7a|cela)?\s*(fonctionne|marche)/i\<close>\<close>
     RegExp_i (seqs [WordB, str ''comment'', ws1, Opt (strs [c_cedil # ''a'', ''cela'']), ws0,
                     strs [''fonctionne'', ''marche'']])]\<close>

definition academicPatterns :: "regexp list" where
  \<open>academicPatterns =
    [\<comment> \<open>\<open>/\b(theory|theorem|principle|concept|hypothesis)\b/i\<close>\<close>
     RegExp_i (seqs [WordB, strs [''theory'', ''theorem'', ''principle'', ''concept'', ''hypothesis''],
                     WordB]),
     \<comment> \<open>\<open>/\b(th\u00e9orie|th\u00e9or\u00e8me|principe|concept|hypoth\u00e8se)\b/i\<close>\<close>
     RegExp_i (seqs [WordB, strs [''th'' @ [e_acute] @ ''orie'',
                                  ''th'' @ [e_acute] @ ''or'' @ [e_grave] @ ''me'',
                                  ''principe'', ''concept'', ''hypoth'' @ [e_grave] @ ''se''],
                     WordB]),
     \<comment> \<open>\<open>/\b(quantum|relativity|physics|mathematics|philosophy)\b/i\<close>\<close>
     RegExp_i (seqs [WordB, strs [''quantum'', ''relativity'', ''physics'', ''mathematics'',
                                  ''philosophy''],
                     WordB]),
     \<comment> \<open>\<open>/\b(quantique|relativit\u00e9|physique|math\u00e9matiques?|philosophie)\b/i\<close>\<close>
     RegExp_i (seqs [WordB, alts [str ''quantique'', str (''relativit'' @ [e_acute]), str ''physique'',
                                  Seq (str (''math'' @ [e_acute] @ ''matique'')) (Opt (str ''s'')),
                                  str ''philosophie''],
                     WordB]),
     \<comment> \<open>\<open>/\b(m\u00e9canique|thermodynamique|\u00e9lectromagn\u00e9tisme)\b/i\<close>\<close>
     RegExp_i (seqs [WordB, strs [''m'' @ [e_acute] @ ''canique'', ''thermodynamique'',
                                  [e_acute] @ ''lectromagn'' @ [e_acute] @ ''tisme''],
                     WordB])]\<close>

text \<open>\<open>/\?/g\<close>\<close>

definition question_mark_pattern :: regexp where
  "question_mark_pattern = RegExp (str ''?'')"

section \<open>Complexity scorer (classifier.ts)\<close>

text \<open>
  \<open>calculateComplexityScore\<close> runs its detectors one after the other on the running
  \<open>score\<close> and \<open>signals\<close>. Each block of the function body is one state transformer
  on \<^typ>\<open>score_result\<close>, named after the comment that heads it in the source.
\<close>

definition push :: "string \<Rightarrow> score_result \<Rightarrow> score_result" where
  "push label acc = acc\<lparr>signals := signals acc @ [label]\<rparr>"

definition add_score :: "int \<Rightarrow> score_result \<Rightarrow> score_result" where
  "add_score n acc = acc\<lparr>score := score acc + n\<rparr>"

text \<open>Length factor (0-20 points).\<close>

definition lengthFactor :: "string \<Rightarrow> thresholds \<Rightarrow> score_result \<Rightarrow> score_result" where
  "lengthFactor text T acc =
     (if int (length text) > minLengthForPower T then
        (let lengthScore = min 20 ((int (length text) - minLengthForPower T) div 100)
         in if lengthScore > 5
            then push (''long_message:'' @ show_nat (length text) @ ''chars'')
                   (add_score lengthScore acc)
            else add_score lengthScore acc)
      else acc)"

text \<open>Code lines factor (0-25 points).\<close>

definition codeLinesFactor :: "string \<Rightarrow> thresholds \<Rightarrow> score_result \<Rightarrow> score_result" where
  "codeLinesFactor text T acc =
     (let codeLines = countCodeLines text in
      if int codeLines > minCodeLinesForPower T then
        (let codeScore = min 25 ((int codeLines - minCodeLinesForPower T) div 2)
         in push (''code:'' @ show_nat codeLines @ ''lines'') (add_score codeScore acc))
      else if codeLines > 10 then
        push (''code:'' @ show_nat codeLines @ ''lines'') (add_score 5 acc)
      else acc)"

text \<open>Power keywords: 0-30 points in \<^verbatim>\<open>src/classifier.ts\<close>, 0-40 points in the later
  revision.\<close>

definition powerKeywordsFactor :: "string \<Rightarrow> score_result \<Rightarrow> score_result" where
  "powerKeywordsFactor text acc =
     (let powerMatches = countKeywordMatches text POWER_KEYWORDS in
      if powerMatches > 0 then
        (let keywordScore = min 30 (int powerMatches * 6)
         in push (''power_keywords:'' @ show_nat powerMatches) (add_score keywordScore acc))
      else acc)"

definition powerKeywordsFactor_enfr :: "string \<Rightarrow> score_result \<Rightarrow> score_result" where
  "powerKeywordsFactor_enfr text acc =
     (let powerMatches = countKeywordMatches text POWER_KEYWORDS_enfr in
      if powerMatches > 0 then
        (let keywordScore = min 40 (int powerMatches * 10)
         in push (''power_keywords:'' @ show_nat powerMatches) (add_score keywordScore acc))
      else acc)"

text \<open>Simple keywords (negative, -10 to 0).\<close>

definition simpleKeywordsFactor :: "string \<Rightarrow> score_result \<Rightarrow> score_result" where
  "simpleKeywordsFactor text acc =
     (let powerMatches = countKeywordMatches text POWER_KEYWORDS;
          simpleMatches = countKeywordMatches text SIMPLE_KEYWORDS in
      if simpleMatches > 0 \<and> powerMatches = 0 then
        push (''simple_keywords:'' @ show_nat simpleMatches)
          (add_score (- min 10 (int simpleMatches * 3)) acc)
      else acc)"

definition simpleKeywordsFactor_enfr :: "string \<Rightarrow> score_result \<Rightarrow> score_result" where
  "simpleKeywordsFactor_enfr text acc =
     (let powerMatches = countKeywordMatches text POWER_KEYWORDS_enfr;
          simpleMatches = countKeywordMatches text SIMPLE_KEYWORDS_enfr in
      if simpleMatches > 0 \<and> powerMatches = 0 then
        push (''simple_keywords:'' @ show_nat simpleMatches)
          (add_score (- min 10 (int simpleMatches * 3)) acc)
      else acc)"

text \<open>Multi-step reasoning: 15 points, 30 in the later revision.\<close>

definition multiStepFactor :: "string \<Rightarrow> score_result \<Rightarrow> score_result" where
  "multiStepFactor text acc =
     (if detectMultiStepReasoning text then push ''multi_step_reasoning'' (add_score 15 acc)
      else acc)"

definition multiStepFactor_enfr :: "string \<Rightarrow> score_result \<Rightarrow> score_result" where
  "multiStepFactor_enfr text acc =
     (if detectMultiStepReasoning_enfr text then push ''multi_step_reasoning'' (add_score 30 acc)
      else acc)"

text \<open>Debugging context: 10 points, 25 in the later revision.\<close>

definition debuggingFactor :: "string \<Rightarrow> score_result \<Rightarrow> score_result" where
  "debuggingFactor text acc =
     (if detectDebugging text then push ''debugging'' (add_score 10 acc) else acc)"

definition debuggingFactor_enfr :: "string \<Rightarrow> score_result \<Rightarrow> score_result" where
  "debuggingFactor_enfr text acc =
     (if detectDebugging_enfr text then push ''debugging'' (add_score 25 acc) else acc)"

text \<open>Deep reasoning questions (0-15 points), later revision only.\<close>

definition deepQuestionFactor_enfr :: "string \<Rightarrow> score_result \<Rightarrow> score_result" where
  "deepQuestionFactor_enfr text acc =
     (if list_ex (\<lambda>p. test p text) deepQuestionPatterns \<and> length text > 30
      then push ''deep_question'' (add_score 15 acc) else acc)"

text \<open>Academic/theoretical topics (0-15 points), later revision only.\<close>

definition academicFactor_enfr :: "string \<Rightarrow> score_result \<Rightarrow> score_result" where
  "academicFactor_enfr text acc =
     (if list_ex (\<lambda>p. test p text) academicPatterns
      then push ''academic_topic'' (add_score 15 acc) else acc)"

text \<open>Programming language mentions (0-5 points).\<close>

definition languageFactor :: "string \<Rightarrow> score_result \<Rightarrow> score_result" where
  "languageFactor text acc =
     (let langMatches = countKeywordMatches text PROGRAMMING_LANGUAGES in
      if langMatches > 0 then
        push (''programming:'' @ show_nat langMatches @ ''langs'')
          (add_score (min 5 (int langMatches * 2)) acc)
      else acc)"

text \<open>Question complexity.\<close>

definition questionFactor :: "string \<Rightarrow> score_result \<Rightarrow> score_result" where
  "questionFactor text acc =
     (let questionCount = match_count question_mark_pattern text in
      if questionCount > 2 then
        push (''questions:'' @ show_nat questionCount)
          (add_score (min 10 (int questionCount * 2)) acc)
      else acc)"

text \<open>Clamp score to 0-100.\<close>

definition clampScore :: "score_result \<Rightarrow> score_result" where
  "clampScore acc = acc\<lparr>score := max 0 (min 100 (score acc))\<rparr>"

definition initial :: score_result where
  "initial = \<lparr>score = 0, signals = []\<rparr>"

definition calculateComplexityScore :: "string \<Rightarrow> thresholds \<Rightarrow> score_result" where
  "calculateComplexityScore text T =
     clampScore (questionFactor text (languageFactor text (debuggingFactor text
       (multiStepFactor text (simpleKeywordsFactor text (powerKeywordsFactor text
         (codeLinesFactor text T (lengthFactor text T initial))))))))"

definition calculateComplexityScore_enfr :: "string \<Rightarrow> thresholds \<Rightarrow> score_result" where
  "calculateComplexityScore_enfr text T =
     clampScore (questionFactor text (languageFactor text (academicFactor_enfr text
       (deepQuestionFactor_enfr text (debuggingFactor_enfr text (multiStepFactor_enfr text
         (simpleKeywordsFactor_enfr text (powerKeywordsFactor_enfr text
           (codeLinesFactor text T (lengthFactor text T initial))))))))))"


section \<open>Classifier (classifier.ts)\<close>

text \<open>\<open>classifyRequest\<close> has the same text in both revisions and differs only in the
  \<open>calculateComplexityScore\<close> it calls, which is the first argument of \<open>classify_with\<close>.\<close>

definition lastUserMessage :: "chat_message list \<Rightarrow> chat_message option" where
  "lastUserMessage messages = find (\<lambda>m. role m = User) (rev messages)"

definition lastUserText :: "chat_message list \<Rightarrow> string" where
  "lastUserText messages =
     (case lastUserMessage messages of Some m \<Rightarrow> extractTextContent [m] | None \<Rightarrow> [])"

definition classify_with ::
  "(string \<Rightarrow> thresholds \<Rightarrow> score_result) \<Rightarrow> chat_message list \<Rightarrow> thresholds
     \<Rightarrow> classification_result" where
  "classify_with scorer messages T =
     (let text = extractTextContent messages;
          full = scorer text T;
          lst = scorer (lastUserText messages) T;
          sc = max (score full) (score lst);
          sigs = (if sc = score full then signals full else signals lst);
          use = (sc \<ge> minScoreForPower T);
          rsn = (if use
                 then ''Complexity score '' @ show_int sc @ '' >= ''
                      @ show_int (minScoreForPower T)
                      @ '' (signals: '' @ join '', '' sigs @ '')''
                 else ''Complexity score '' @ show_int sc @ '' < ''
                      @ show_int (minScoreForPower T) @ '' - using default model'')
      in \<lparr>score = sc, signals = sigs, usePowerModel = use, reason = rsn\<rparr>)"

definition classifyRequest :: "chat_message list \<Rightarrow> thresholds \<Rightarrow> classification_result" where
  "classifyRequest messages T = classify_with calculateComplexityScore messages T"

definition classifyRequest_enfr :: "chat_message list \<Rightarrow> thresholds \<Rightarrow> classification_result" where
  "classifyRequest_enfr messages T = classify_with calculateComplexityScore_enfr messages T"


text \<open>The text that the specification names for the second scoring pass: the text of
  the last message whose role is \<open>user\<close>, and the empty text when there is none.\<close>

definition spec_last_user_text :: "chat_message list \<Rightarrow> string" where
  "spec_last_user_text messages =
     (case filter (\<lambda>m. role m = User) messages of
        [] \<Rightarrow> []
      | u # us \<Rightarrow> message_text (last (u # us)))"


section \<open>Router data model (types.ts)\<close>

datatype provider = Ollama | Anthropic | OpenAI

record model_config =
  provider :: provider
  model :: string
  baseUrl :: string
  apiKey :: "string option"

record router_config =
  port :: int
  host :: string
  defaultModel :: model_config
  powerModel :: model_config
  thresholds :: thresholds
  debug :: bool

text \<open>\<open>ChatCompletionRequest\<close>; any further key of the request object is not read by
  the router.\<close>

record chat_completion_request =
  request_model :: "string option"
  messages :: "chat_message list"
  stream :: "bool option"
  temperature :: "real option"
  max_tokens :: "int option"

datatype tier = DefaultTier | PowerTier

record usage =
  prompt_tokens :: int
  completion_tokens :: int
  total_tokens :: int

record chat_choice =
  index :: int
  message :: chat_message
  finish_reason :: "string option"

record router_meta =
  router_tier :: tier
  router_model :: string
  router_score :: int
  router_signals :: "string list"

text \<open>\<open>ChatCompletionResponse\<close>; the field \<open>object\<close> is the constant
  \<open>'chat.completion'\<close> and \<open>router\<close> is the field \<open>_router\<close>.\<close>

record chat_completion_response =
  response_id :: string
  response_created :: int
  response_model :: string
  response_choices :: "chat_choice list"
  response_usage :: "usage option"
  router :: router_meta

record stream_choice =
  stream_index :: int
  delta_role :: "string option"
  delta_content :: "string option"
  stream_finish_reason :: "string option"

text \<open>\<open>StreamChunk\<close>; the field \<open>object\<close> is the constant \<open>'chat.completion.chunk'\<close>.\<close>

record stream_chunk =
  chunk_id :: string
  chunk_created :: int
  chunk_model :: string
  chunk_choices :: "stream_choice list"


section \<open>Completion backend\<close>

text \<open>
  The client library is outside the repository. What the router can observe of it is
  modelled here: the value a call returns or throws, and the order of the calls.
\<close>

text \<open>A thrown value is an instance of \<open>Error\<close> (with its message) or some other value.\<close>

datatype thrown = ErrorInstance string | OtherValue string

fun instanceof_Error :: "thrown \<Rightarrow> bool" where
  "instanceof_Error (ErrorInstance msg) = True"
| "instanceof_Error (OtherValue v) = False"

datatype client = DefaultClient | PowerClient

text \<open>The argument of \<open>client.chat.completions.create\<close>.\<close>

record create_params =
  p_model :: string
  p_messages :: "chat_message list"
  p_temperature :: "real option"
  p_max_tokens :: "int option"
  p_stream :: bool

text \<open>What the library returns for \<open>stream: false\<close>. A choice's content may be
  \<open>null\<close> (\<open>None\<close>); \<open>completion_extra\<close> stands for the fields the router does not copy.\<close>

record completion_choice =
  cc_index :: int
  cc_role :: role
  cc_content :: "string option"
  cc_finish_reason :: "string option"

record completion =
  completion_id :: string
  completion_created :: int
  completion_model :: string
  completion_choices :: "completion_choice list"
  completion_usage :: "usage option"
  completion_extra :: string

text \<open>What the library yields for \<open>stream: true\<close>: the chunks received, in order, and
  the value thrown behind them when the stream breaks. \<open>Absent\<close> is \<open>undefined\<close>.\<close>

datatype 'a nullable = Absent | Null | Present 'a

record upstream_choice =
  uc_index :: int
  uc_role :: "string option"
  uc_content :: "string nullable"
  uc_finish_reason :: "string option"
  uc_extra :: string

record upstream_chunk =
  uc_id :: string
  uc_created :: int
  uc_model :: string
  uc_choices :: "upstream_choice list"
  uc_chunk_extra :: string

record upstream =
  received :: "upstream_chunk list"
  broken_by :: "thrown option"

text \<open>A backend answers a call from its state \<open>'s\<close> and moves to a new state.\<close>

record 's backend =
  create :: "client \<Rightarrow> create_params \<Rightarrow> 's \<Rightarrow> (thrown + completion) \<times> 's"
  create_stream :: "client \<Rightarrow> create_params \<Rightarrow> 's \<Rightarrow> (thrown + upstream) \<times> 's"

text \<open>The world of a request: the state of the backend and the calls made so far.\<close>

record 's world =
  backend_state :: 's
  calls :: "(client \<times> create_params) list"

definition call_create ::
  "'s backend \<Rightarrow> client \<Rightarrow> create_params \<Rightarrow> 's world \<Rightarrow> (thrown + completion) \<times> 's world" where
  "call_create be c p w =
     (case create be c p (backend_state w) of
        (r, st) \<Rightarrow> (r, \<lparr>backend_state = st, calls = calls w @ [(c, p)]\<rparr>))"

definition call_create_stream ::
  "'s backend \<Rightarrow> client \<Rightarrow> create_params \<Rightarrow> 's world \<Rightarrow> (thrown + upstream) \<times> 's world" where
  "call_create_stream be c p w =
     (case create_stream be c p (backend_state w) of
        (r, st) \<Rightarrow> (r, \<lparr>backend_state = st, calls = calls w @ [(c, p)]\<rparr>))"


section \<open>Router (router.ts)\<close>

text \<open>
  \<open>routeRequest\<close> and \<open>routeStreamingRequest\<close> of class \<open>LLMRouter\<close>. The imported
  \<open>classifyRequest\<close> is the argument \<open>classify\<close> (the repository has two revisions of
  it). Console output is not modelled.
\<close>

type_synonym classifier = "chat_message list \<Rightarrow> thresholds \<Rightarrow> classification_result"

record route_result =
  response :: chat_completion_response
  result_tier :: tier
  classification :: classification_result

definition normalize_choice :: "completion_choice \<Rightarrow> chat_choice" where
  "normalize_choice choice =
     \<lparr>index = cc_index choice,
      message = \<lparr>role = cc_role choice,
                 content = StringContent (case cc_content choice of Some s \<Rightarrow> s | None \<Rightarrow> [])\<rparr>,
      finish_reason = cc_finish_reason choice\<rparr>"

text \<open>The response object built from a completion; the source writes it out twice, once
  for the first call and once for the fallback, with different \<open>_router\<close> fields.\<close>

definition build_response ::
  "completion \<Rightarrow> tier \<Rightarrow> string \<Rightarrow> int \<Rightarrow> string list \<Rightarrow> chat_completion_response" where
  "build_response c t m sc sigs =
     \<lparr>response_id = completion_id c,
      response_created = completion_created c,
      response_model = completion_model c,
      response_choices = map normalize_choice (completion_choices c),
      response_usage = (case completion_usage c of
                          Some u \<Rightarrow> Some \<lparr>prompt_tokens = prompt_tokens u,
                                          completion_tokens = completion_tokens u,
                                          total_tokens = total_tokens u\<rparr>
                        | None \<Rightarrow> None),
      router = \<lparr>router_tier = t, router_model = m, router_score = sc, router_signals = sigs\<rparr>\<rparr>"

definition params_for :: "model_config \<Rightarrow> chat_completion_request \<Rightarrow> bool \<Rightarrow> create_params" where
  "params_for modelConfig request streaming =
     \<lparr>p_model = model modelConfig,
      p_messages = messages request,
      p_temperature = temperature request,
      p_max_tokens = max_tokens request,
      p_stream = streaming\<rparr>"

definition routeRequest ::
  "router_config \<Rightarrow> classifier \<Rightarrow> 's backend \<Rightarrow> chat_completion_request \<Rightarrow> 's world
     \<Rightarrow> (thrown + route_result) \<times> 's world" where
  "routeRequest config classify be request w =
     (let classification = classify (messages request) (thresholds config);
          tier = (if usePowerModel classification then PowerTier else DefaultTier);
          client = (if usePowerModel classification then PowerClient else DefaultClient);
          modelConfig = (if usePowerModel classification then powerModel config
                         else defaultModel config)
      in case call_create be client (params_for modelConfig request False) w of
           (Inr completion, w1) \<Rightarrow>
             (Inr \<lparr>response = build_response completion tier (model modelConfig)
                                 (score classification) (signals classification),
                   result_tier = tier, classification = classification\<rparr>, w1)
         | (Inl error, w1) \<Rightarrow>
             if tier = DefaultTier \<and> instanceof_Error error then
               (case call_create be PowerClient (params_for (powerModel config) request False) w1 of
                  (Inr completion, w2) \<Rightarrow>
                    (Inr \<lparr>response = build_response completion PowerTier
                                        (model (powerModel config)) (score classification)
                                        (signals classification @ [''fallback_after_error'']),
                          result_tier = PowerTier, classification = classification\<rparr>, w2)
                | (Inl error2, w2) \<Rightarrow> (Inl error2, w2))
             else (Inl error, w1))"

definition normalize_stream_choice :: "upstream_choice \<Rightarrow> stream_choice" where
  "normalize_stream_choice choice =
     \<lparr>stream_index = uc_index choice,
      delta_role = uc_role choice,
      delta_content = (case uc_content choice of Present s \<Rightarrow> Some s | Null \<Rightarrow> None
                       | Absent \<Rightarrow> None),
      stream_finish_reason = uc_finish_reason choice\<rparr>"

definition normalize_chunk :: "upstream_chunk \<Rightarrow> stream_chunk" where
  "normalize_chunk chunk =
     \<lparr>chunk_id = uc_id chunk,
      chunk_created = uc_created chunk,
      chunk_model = uc_model chunk,
      chunk_choices = map normalize_stream_choice (uc_choices chunk)\<rparr>"

text \<open>The loop \<open>for await (const chunk of stream) yield {...}\<close>.\<close>

fun forward_chunks :: "upstream_chunk list \<Rightarrow> stream_chunk list" where
  "forward_chunks [] = []"
| "forward_chunks (chunk # rest) = normalize_chunk chunk # forward_chunks rest"

text \<open>What a consumer that reads the generator to its end observes: the chunks yielded
  and the value thrown, if any.\<close>

record stream_outcome =
  yielded :: "stream_chunk list"
  thrown_value :: "thrown option"

definition routeStreamingRequest ::
  "router_config \<Rightarrow> classifier \<Rightarrow> 's backend \<Rightarrow> chat_completion_request \<Rightarrow> 's world
     \<Rightarrow> stream_outcome \<times> 's world" where
  "routeStreamingRequest config classify be request w =
     (let classification = classify (messages request) (thresholds config);
          client = (if usePowerModel classification then PowerClient else DefaultClient);
          modelConfig = (if usePowerModel classification then powerModel config
                         else defaultModel config)
      in case call_create_stream be client (params_for modelConfig request True) w of
           (Inl error, w1) \<Rightarrow> (\<lparr>yielded = [], thrown_value = Some error\<rparr>, w1)
         | (Inr up, w1) \<Rightarrow>
             (\<lparr>yielded = forward_chunks (received up), thrown_value = broken_by up\<rparr>, w1))"


section \<open>Sample inputs\<close>

definition sample_conversation :: "chat_message list" where
  "sample_conversation =
     [\<lparr>role = User, content = StringContent ''Please debug this''\<rparr>,
      \<lparr>role = Assistant, content = StringContent ''ok''\<rparr>,
      \<lparr>role = User, content = StringContent ''thanks''\<rparr>,
      \<lparr>role = Assistant, content = StringContent ''bye''\<rparr>]"


text \<open>A request, a configuration and scripted backends for the router.\<close>

definition default_thresholds :: thresholds where
  "default_thresholds =
     \<lparr>minLengthForPower = 500, minCodeLinesForPower = 30, minScoreForPower = 50\<rparr>"

definition sample_config :: router_config where
  "sample_config =
     \<lparr>port = 5555, host = ''127.0.0.1'',
      defaultModel = \<lparr>provider = Ollama, model = ''qwen3:14b'',
                      baseUrl = ''http://localhost:11434/v1'', apiKey = None\<rparr>,
      powerModel = \<lparr>provider = Anthropic, model = ''claude-opus-4-5-20250205'',
                    baseUrl = ''https://api.anthropic.com'', apiKey = Some ''sk-ant''\<rparr>,
      thresholds = default_thresholds,
      debug = False\<rparr>"

definition sample_request :: chat_completion_request where
  "sample_request =
     \<lparr>request_model = None, messages = sample_conversation, stream = None,
      temperature = Some (7 / 10), max_tokens = Some 256\<rparr>"

definition sample_power_request :: chat_completion_request where
  "sample_power_request =
     \<lparr>request_model = None,
      messages = [\<lparr>role = User, content = StringContent ''debug async thread exploit step 1 theory''\<rparr>],
      stream = None, temperature = None, max_tokens = None\<rparr>"

definition sample_completion :: completion where
  "sample_completion =
     \<lparr>completion_id = ''chatcmpl-1'', completion_created = 1700000000,
      completion_model = ''claude-opus-4-5-20250205'',
      completion_choices =
        [\<lparr>cc_index = 0, cc_role = Assistant, cc_content = None, cc_finish_reason = Some ''stop''\<rparr>],
      completion_usage = None, completion_extra = ''system_fingerprint''\<rparr>"

definition sample_upstream :: upstream where
  "sample_upstream =
     \<lparr>received =
        [\<lparr>uc_id = ''c1'', uc_created = 1, uc_model = ''qwen3:14b'',
          uc_choices = [\<lparr>uc_index = 0, uc_role = Some ''assistant'', uc_content = Present ''Hel'',
                          uc_finish_reason = None, uc_extra = ''logprobs''\<rparr>],
          uc_chunk_extra = ''usage''\<rparr>,
         \<lparr>uc_id = ''c1'', uc_created = 1, uc_model = ''qwen3:14b'',
          uc_choices = [\<lparr>uc_index = 0, uc_role = None, uc_content = Null,
                          uc_finish_reason = None, uc_extra = ''logprobs''\<rparr>],
          uc_chunk_extra = ''usage''\<rparr>],
      broken_by = Some (ErrorInstance ''socket hang up'')\<rparr>"

text \<open>A backend that answers every call of the default client with \<open>d\<close> and every call
  of the power client with \<open>p\<close> (\<open>ds\<close> and \<open>ps\<close> for streaming calls) and counts the calls
  it has answered.\<close>

definition scripted ::
  "(thrown + completion) \<Rightarrow> (thrown + completion) \<Rightarrow> (thrown + upstream) \<Rightarrow> (thrown + upstream)
     \<Rightarrow> nat backend" where
  "scripted d p ds ps =
     \<lparr>create = (\<lambda>c params st. (case c of DefaultClient \<Rightarrow> d | PowerClient \<Rightarrow> p, Suc st)),
      create_stream = (\<lambda>c params st. (case c of DefaultClient \<Rightarrow> ds | PowerClient \<Rightarrow> ps, Suc st))\<rparr>"

definition fresh_world :: "nat world" where
  "fresh_world = \<lparr>backend_state = 0, calls = []\<rparr>"

text \<open>Thirty lines that each start with a code keyword, the last one \<open>async\<close>,
  every line closed by a line feed.\<close>

definition thirty_code_lines :: string where
  "thirty_code_lines = concat (replicate 29 ''if\<newline>'') @ ''async\<newline>''"


section \<open>Character predicates on the bits of a code unit\<close>

text \<open>
  The predicates above are defined on the number of the code unit. The equations below
  say the same on its eight bits (\<open>b0\<close> the lowest) and are the ones used to evaluate
  the definitions on concrete texts.
\<close>

lemma isDigit_bits [code]:
  "isDigit (Char b0 b1 b2 b3 b4 b5 b6 b7) =
     (b4 \<and> b5 \<and> \<not> b6 \<and> \<not> b7 \<and> (\<not> b3 \<or> (\<not> b2 \<and> \<not> b1)))"
  by (cases b0; cases b1; cases b2; cases b3; cases b4; cases b5; cases b6; cases b7;
      simp add: isDigit_def code_unit_def)

lemma isWordChar_bits [code]:
  "isWordChar (Char b0 b1 b2 b3 b4 b5 b6 b7) =
     (\<not> b7 \<and>
      ((b6 \<and> (b0 \<or> b1 \<or> b2 \<or> b3 \<or> b4) \<and> \<not> (b4 \<and> b3 \<and> (b2 \<or> (b1 \<and> b0))))
       \<or> (b4 \<and> b5 \<and> \<not> b6 \<and> (\<not> b3 \<or> (\<not> b2 \<and> \<not> b1)))
       \<or> (b0 \<and> b1 \<and> b2 \<and> b3 \<and> b4 \<and> \<not> b5 \<and> b6)))"
  by (cases b0; cases b1; cases b2; cases b3; cases b4; cases b5; cases b6; cases b7;
      simp add: isWordChar_def isDigit_def code_unit_def)

lemma isLineFeed_bits [code]:
  "isLineFeed (Char b0 b1 b2 b3 b4 b5 b6 b7) =
     (b1 \<and> b3 \<and> \<not> b0 \<and> \<not> b2 \<and> \<not> b4 \<and> \<not> b5 \<and> \<not> b6 \<and> \<not> b7)"
  by (cases b0; cases b1; cases b2; cases b3; cases b4; cases b5; cases b6; cases b7;
      simp add: isLineFeed_def code_unit_def)

lemma isLineTerminator_bits [code]:
  "isLineTerminator (Char b0 b1 b2 b3 b4 b5 b6 b7) =
     (b3 \<and> \<not> b4 \<and> \<not> b5 \<and> \<not> b6 \<and> \<not> b7 \<and> ((b1 \<and> \<not> b0 \<and> \<not> b2) \<or> (b0 \<and> b2 \<and> \<not> b1)))"
  by (cases b0; cases b1; cases b2; cases b3; cases b4; cases b5; cases b6; cases b7;
      simp add: isLineTerminator_def code_unit_def)

lemma isWhiteSpace_bits [code]:
  "isWhiteSpace (Char b0 b1 b2 b3 b4 b5 b6 b7) =
     ((b5 \<and> \<not> b0 \<and> \<not> b1 \<and> \<not> b2 \<and> \<not> b3 \<and> \<not> b4 \<and> \<not> b6)
      \<or> (b3 \<and> \<not> b4 \<and> \<not> b5 \<and> \<not> b6 \<and> \<not> b7 \<and> (b0 \<or> b1 \<or> b2) \<and> \<not> (b2 \<and> b1)))"
  by (cases b0; cases b1; cases b2; cases b3; cases b4; cases b5; cases b6; cases b7;
      simp add: isWhiteSpace_def code_unit_def)

text \<open>Lower-casing sets bit 5 of a capital letter; canonicalisation clears it in a
  small letter.\<close>

lemma toLowerCaseChar_bits [code]:
  "toLowerCaseChar (Char b0 b1 b2 b3 b4 b5 b6 b7) =
     (if \<not> b5 \<and> b6 \<and>
         ((\<not> b7 \<and> (b0 \<or> b1 \<or> b2 \<or> b3 \<or> b4) \<and> \<not> (b4 \<and> b3 \<and> (b2 \<or> (b1 \<and> b0))))
          \<or> (b7 \<and> \<not> (b4 \<and> b2 \<and> b1 \<and> b0)))
      then Char b0 b1 b2 b3 b4 True b6 b7 else Char b0 b1 b2 b3 b4 b5 b6 b7)"
  by (cases b0; cases b1; cases b2; cases b3; cases b4; cases b5; cases b6; cases b7;
      simp add: toLowerCaseChar_def code_unit_def char_of_eq_iff take_bit_eq_mod)

lemma canonicalize_bits [code]:
  "canonicalize (Char b0 b1 b2 b3 b4 b5 b6 b7) =
     (if b5 \<and> b6 \<and>
         ((\<not> b7 \<and> (b0 \<or> b1 \<or> b2 \<or> b3 \<or> b4) \<and> \<not> (b4 \<and> b3 \<and> (b2 \<or> (b1 \<and> b0))))
          \<or> (b7 \<and> \<not> (b4 \<and> b2 \<and> b1 \<and> b0) \<and> \<not> (b0 \<and> b1 \<and> b2 \<and> b3 \<and> b4)))
      then Char b0 b1 b2 b3 b4 False b6 b7 else Char b0 b1 b2 b3 b4 b5 b6 b7)"
  by (cases b0; cases b1; cases b2; cases b3; cases b4; cases b5; cases b6; cases b7;
      simp add: canonicalize_def code_unit_def char_of_eq_iff take_bit_eq_mod)


section \<open>Properties of text extraction\<close>

lemma join_parts_spec:
  "join ''\<newline>'' (map the_text (filter is_text_part ps)) = spec_parts_text ps"
proof (induction ps)
  case Nil
  show ?case by simp
next
  case (Cons p ps)
  show ?case
  proof (cases p)
    case (ImageUrlPart u)
    with Cons show ?thesis by simp
  next
    case (TextPart s)
    show ?thesis
    proof (cases "filter is_text_part ps")
      case Nil
      then have "\<not> list_ex is_text_part ps"
        by (simp add: list_ex_iff filter_empty_conv)
      with Nil TextPart show ?thesis by simp
    next
      case (Cons q qs)
      then have "q \<in> set (filter is_text_part ps)"
        by simp
      then have "list_ex is_text_part ps"
        by (auto simp: list_ex_iff)
      with Cons TextPart \<open>join ''\<newline>'' (map the_text (filter is_text_part ps)) = spec_parts_text ps\<close>
      show ?thesis by simp
    qed
  qed
qed

lemma message_text_spec: "message_text m = spec_message_text m"
  by (simp add: join_parts_spec split: content.splits)

lemma join_messages_spec: "join ''\<newline>'' (map message_text ms) = spec_extract ms"
  by (induction ms rule: spec_extract.induct) (simp_all add: join_parts_spec split: content.splits)

text \<open>
  Claim C7. For every ordered sequence of messages, \<open>extractTextContent\<close> is the
  per-message texts joined by single newlines, where a string content is taken verbatim,
  an array content gives its text-typed parts joined by single newlines, image parts
  give nothing, and the empty sequence gives the empty string. The function is total:
  it has no error result.
\<close>

theorem extractTextContent_contract:
  "extractTextContent ms = spec_extract ms
   \<and> extractTextContent [] = []
   \<and> extractTextContent [\<lparr>role = r, content = StringContent s\<rparr>] = s
   \<and> extractTextContent [\<lparr>role = r, content = ArrayContent ps\<rparr>]
       = join ''\<newline>'' (map the_text (filter is_text_part ps))
   \<and> extractTextContent [\<lparr>role = r, content = ArrayContent (ImageUrlPart u # ps)\<rparr>]
       = extractTextContent [\<lparr>role = r, content = ArrayContent ps\<rparr>]
   \<and> extractTextContent (m # n # ms)
       = extractTextContent [m] @ ''\<newline>'' @ extractTextContent (n # ms)"
  by (simp add: extractTextContent_def join_messages_spec)

theorem extractTextContent_contract_witness:
  "extractTextContent
     [\<lparr>role = User, content = StringContent ''Hello world''\<rparr>,
      \<lparr>role = Assistant, content = ArrayContent
         [TextPart ''Check'', ImageUrlPart ''http://example.com/img.png'', TextPart ''this'']\<rparr>]
   = ''Hello world\<newline>Check\<newline>this''"
  using extractTextContent_contract
    [of "[\<lparr>role = User, content = StringContent ''Hello world''\<rparr>,
          \<lparr>role = Assistant, content = ArrayContent
            [TextPart ''Check'', ImageUrlPart ''http://example.com/img.png'', TextPart ''this'']\<rparr>]"]
  by simp



section \<open>Effect of each scoring block\<close>

lemma push_simps:
  "score (push l acc) = score acc"
  "signals (push l acc) = signals acc @ [l]"
  by (simp_all add: push_def)

lemma add_score_simps:
  "score (add_score n acc) = score acc + n"
  "signals (add_score n acc) = signals acc"
  by (simp_all add: add_score_def)

lemmas block_simps = Let_def push_simps add_score_simps

lemma lengthFactor_score:
  "score (lengthFactor text T acc) = score acc +
     (if int (length text) > minLengthForPower T
      then min 20 ((int (length text) - minLengthForPower T) div 100) else 0)"
  by (simp add: lengthFactor_def block_simps)

lemma lengthFactor_signals:
  "signals (lengthFactor text T acc) = signals acc @
     (if int (length text) > minLengthForPower T
         \<and> min 20 ((int (length text) - minLengthForPower T) div 100) > 5
      then [''long_message:'' @ show_nat (length text) @ ''chars''] else [])"
  by (simp add: lengthFactor_def block_simps)

lemma codeLinesFactor_score:
  "score (codeLinesFactor text T acc) = score acc +
     (if int (countCodeLines text) > minCodeLinesForPower T
      then min 25 ((int (countCodeLines text) - minCodeLinesForPower T) div 2)
      else if countCodeLines text > 10 then 5 else 0)"
  by (simp add: codeLinesFactor_def block_simps)

lemma codeLinesFactor_signals:
  "signals (codeLinesFactor text T acc) = signals acc @
     (if int (countCodeLines text) > minCodeLinesForPower T \<or> countCodeLines text > 10
      then [''code:'' @ show_nat (countCodeLines text) @ ''lines''] else [])"
  by (simp add: codeLinesFactor_def block_simps)

lemma powerKeywordsFactor_score:
  "score (powerKeywordsFactor text acc)
     = score acc + min 30 (int (countKeywordMatches text POWER_KEYWORDS) * 6)"
  by (simp add: powerKeywordsFactor_def block_simps)

lemma powerKeywordsFactor_signals:
  "signals (powerKeywordsFactor text acc) = signals acc @
     (if countKeywordMatches text POWER_KEYWORDS > 0
      then [''power_keywords:'' @ show_nat (countKeywordMatches text POWER_KEYWORDS)] else [])"
  by (simp add: powerKeywordsFactor_def block_simps)

lemma powerKeywordsFactor_enfr_score:
  "score (powerKeywordsFactor_enfr text acc)
     = score acc + min 40 (int (countKeywordMatches text POWER_KEYWORDS_enfr) * 10)"
  by (simp add: powerKeywordsFactor_enfr_def block_simps)

lemma powerKeywordsFactor_enfr_signals:
  "signals (powerKeywordsFactor_enfr text acc) = signals acc @
     (if countKeywordMatches text POWER_KEYWORDS_enfr > 0
      then [''power_keywords:'' @ show_nat (countKeywordMatches text POWER_KEYWORDS_enfr)]
      else [])"
  by (simp add: powerKeywordsFactor_enfr_def block_simps)

lemma simpleKeywordsFactor_score:
  "score (simpleKeywordsFactor text acc) = score acc +
     (if countKeywordMatches text SIMPLE_KEYWORDS > 0
         \<and> countKeywordMatches text POWER_KEYWORDS = 0
      then - min 10 (int (countKeywordMatches text SIMPLE_KEYWORDS) * 3) else 0)"
  by (simp add: simpleKeywordsFactor_def block_simps)

lemma simpleKeywordsFactor_signals:
  "signals (simpleKeywordsFactor text acc) = signals acc @
     (if countKeywordMatches text SIMPLE_KEYWORDS > 0
         \<and> countKeywordMatches text POWER_KEYWORDS = 0
      then [''simple_keywords:'' @ show_nat (countKeywordMatches text SIMPLE_KEYWORDS)]
      else [])"
  by (simp add: simpleKeywordsFactor_def block_simps)

lemma simpleKeywordsFactor_enfr_score:
  "score (simpleKeywordsFactor_enfr text acc) = score acc +
     (if countKeywordMatches text SIMPLE_KEYWORDS_enfr > 0
         \<and> countKeywordMatches text POWER_KEYWORDS_enfr = 0
      then - min 10 (int (countKeywordMatches text SIMPLE_KEYWORDS_enfr) * 3) else 0)"
  by (simp add: simpleKeywordsFactor_enfr_def block_simps)

lemma simpleKeywordsFactor_enfr_signals:
  "signals (simpleKeywordsFactor_enfr text acc) = signals acc @
     (if countKeywordMatches text SIMPLE_KEYWORDS_enfr > 0
         \<and> countKeywordMatches text POWER_KEYWORDS_enfr = 0
      then [''simple_keywords:'' @ show_nat (countKeywordMatches text SIMPLE_KEYWORDS_enfr)]
      else [])"
  by (simp add: simpleKeywordsFactor_enfr_def block_simps)

lemma multiStepFactor_score:
  "score (multiStepFactor text acc)
     = score acc + (if detectMultiStepReasoning text then 15 else 0)"
  by (simp add: multiStepFactor_def block_simps)

lemma multiStepFactor_signals:
  "signals (multiStepFactor text acc)
     = signals acc @ (if detectMultiStepReasoning text then [''multi_step_reasoning''] else [])"
  by (simp add: multiStepFactor_def block_simps)

lemma multiStepFactor_enfr_score:
  "score (multiStepFactor_enfr text acc)
     = score acc + (if detectMultiStepReasoning_enfr text then 30 else 0)"
  by (simp add: multiStepFactor_enfr_def block_simps)

lemma multiStepFactor_enfr_signals:
  "signals (multiStepFactor_enfr text acc)
     = signals acc
       @ (if detectMultiStepReasoning_enfr text then [''multi_step_reasoning''] else [])"
  by (simp add: multiStepFactor_enfr_def block_simps)

lemma debuggingFactor_score:
  "score (debuggingFactor text acc) = score acc + (if detectDebugging text then 10 else 0)"
  by (simp add: debuggingFactor_def block_simps)

lemma debuggingFactor_signals:
  "signals (debuggingFactor text acc)
     = signals acc @ (if detectDebugging text then [''debugging''] else [])"
  by (simp add: debuggingFactor_def block_simps)

lemma debuggingFactor_enfr_score:
  "score (debuggingFactor_enfr text acc)
     = score acc + (if detectDebugging_enfr text then 25 else 0)"
  by (simp add: debuggingFactor_enfr_def block_simps)

lemma debuggingFactor_enfr_signals:
  "signals (debuggingFactor_enfr text acc)
     = signals acc @ (if detectDebugging_enfr text then [''debugging''] else [])"
  by (simp add: debuggingFactor_enfr_def block_simps)

lemma deepQuestionFactor_enfr_score:
  "score (deepQuestionFactor_enfr text acc) = score acc +
     (if list_ex (\<lambda>p. test p text) deepQuestionPatterns \<and> length text > 30 then 15 else 0)"
  by (simp add: deepQuestionFactor_enfr_def block_simps)

lemma deepQuestionFactor_enfr_signals:
  "signals (deepQuestionFactor_enfr text acc) = signals acc @
     (if list_ex (\<lambda>p. test p text) deepQuestionPatterns \<and> length text > 30
      then [''deep_question''] else [])"
  by (simp add: deepQuestionFactor_enfr_def block_simps)

lemma academicFactor_enfr_score:
  "score (academicFactor_enfr text acc) = score acc +
     (if list_ex (\<lambda>p. test p text) academicPatterns then 15 else 0)"
  by (simp add: academicFactor_enfr_def block_simps)

lemma academicFactor_enfr_signals:
  "signals (academicFactor_enfr text acc) = signals acc @
     (if list_ex (\<lambda>p. test p text) academicPatterns then [''academic_topic''] else [])"
  by (simp add: academicFactor_enfr_def block_simps)

lemma languageFactor_score:
  "score (languageFactor text acc)
     = score acc + min 5 (int (countKeywordMatches text PROGRAMMING_LANGUAGES) * 2)"
  by (simp add: languageFactor_def block_simps)

lemma languageFactor_signals:
  "signals (languageFactor text acc) = signals acc @
     (if countKeywordMatches text PROGRAMMING_LANGUAGES > 0
      then [''programming:'' @ show_nat (countKeywordMatches text PROGRAMMING_LANGUAGES)
            @ ''langs'']
      else [])"
  by (simp add: languageFactor_def block_simps)

lemma questionFactor_score:
  "score (questionFactor text acc) = score acc +
     (if match_count question_mark_pattern text > 2
      then min 10 (int (match_count question_mark_pattern text) * 2) else 0)"
  by (simp add: questionFactor_def block_simps)

lemma questionFactor_signals:
  "signals (questionFactor text acc) = signals acc @
     (if match_count question_mark_pattern text > 2
      then [''questions:'' @ show_nat (match_count question_mark_pattern text)] else [])"
  by (simp add: questionFactor_def block_simps)

lemma clampScore_simps:
  "score (clampScore acc) = max 0 (min 100 (score acc))"
  "signals (clampScore acc) = signals acc"
  by (simp_all add: clampScore_def)

lemmas block_signals =
  lengthFactor_signals codeLinesFactor_signals powerKeywordsFactor_signals
  powerKeywordsFactor_enfr_signals simpleKeywordsFactor_signals
  simpleKeywordsFactor_enfr_signals multiStepFactor_signals multiStepFactor_enfr_signals
  debuggingFactor_signals debuggingFactor_enfr_signals deepQuestionFactor_enfr_signals
  academicFactor_enfr_signals languageFactor_signals questionFactor_signals

lemmas block_scores =
  lengthFactor_score codeLinesFactor_score powerKeywordsFactor_score
  powerKeywordsFactor_enfr_score simpleKeywordsFactor_score
  simpleKeywordsFactor_enfr_score multiStepFactor_score multiStepFactor_enfr_score
  debuggingFactor_score debuggingFactor_enfr_score deepQuestionFactor_enfr_score
  academicFactor_enfr_score languageFactor_score questionFactor_score

text \<open>The signal list of a pass: one optional label for each block, in the order of
  the blocks.\<close>

lemma calculateComplexityScore_signals:
  "signals (calculateComplexityScore text T) =
     signals (lengthFactor text T initial) @ signals (codeLinesFactor text T initial)
     @ signals (powerKeywordsFactor text initial) @ signals (simpleKeywordsFactor text initial)
     @ signals (multiStepFactor text initial) @ signals (debuggingFactor text initial)
     @ signals (languageFactor text initial) @ signals (questionFactor text initial)"
  unfolding calculateComplexityScore_def clampScore_simps
  by (simp add: block_signals initial_def split del: if_split cong: if_weak_cong)

lemma calculateComplexityScore_enfr_signals:
  "signals (calculateComplexityScore_enfr text T) =
     signals (lengthFactor text T initial) @ signals (codeLinesFactor text T initial)
     @ signals (powerKeywordsFactor_enfr text initial)
     @ signals (simpleKeywordsFactor_enfr text initial)
     @ signals (multiStepFactor_enfr text initial) @ signals (debuggingFactor_enfr text initial)
     @ signals (deepQuestionFactor_enfr text initial) @ signals (academicFactor_enfr text initial)
     @ signals (languageFactor text initial) @ signals (questionFactor text initial)"
  unfolding calculateComplexityScore_enfr_def clampScore_simps
  by (simp add: block_signals initial_def split del: if_split cong: if_weak_cong)

text \<open>The score of a pass: the clamped sum of the contributions of the blocks.\<close>

lemma calculateComplexityScore_score:
  "score (calculateComplexityScore text T) =
     max 0 (min 100
       (score (lengthFactor text T initial) + score (codeLinesFactor text T initial)
        + score (powerKeywordsFactor text initial) + score (simpleKeywordsFactor text initial)
        + score (multiStepFactor text initial) + score (debuggingFactor text initial)
        + score (languageFactor text initial) + score (questionFactor text initial)))"
  unfolding calculateComplexityScore_def clampScore_simps
  by (simp add: block_scores initial_def split del: if_split cong: if_weak_cong)

lemma calculateComplexityScore_enfr_score:
  "score (calculateComplexityScore_enfr text T) =
     max 0 (min 100
       (score (lengthFactor text T initial) + score (codeLinesFactor text T initial)
        + score (powerKeywordsFactor_enfr text initial)
        + score (simpleKeywordsFactor_enfr text initial)
        + score (multiStepFactor_enfr text initial) + score (debuggingFactor_enfr text initial)
        + score (deepQuestionFactor_enfr text initial)
        + score (academicFactor_enfr text initial)
        + score (languageFactor text initial) + score (questionFactor text initial)))"
  unfolding calculateComplexityScore_enfr_def clampScore_simps
  by (simp add: block_scores initial_def split del: if_split cong: if_weak_cong)



section \<open>Properties of the scorer\<close>

lemma filter_optional_label:
  "filter P (if c then [x] else []) = (if c \<and> P x then [x] else [])"
  by (cases c) simp_all

lemma length_optional_label: "length (if c then [x] else []) \<le> Suc 0"
  by simp

lemmas label_simps = filter_optional_label length_optional_label initial_def

text \<open>
  Claim C3. For every text \<open>s\<close> and all thresholds \<open>T\<close>, the score returned by
  \<open>calculateComplexityScore\<close> lies between 0 and 100, in both revisions.
\<close>

theorem score_in_range:
  "0 \<le> score (calculateComplexityScore s T) \<and> score (calculateComplexityScore s T) \<le> 100
   \<and> 0 \<le> score (calculateComplexityScore_enfr s T)
   \<and> score (calculateComplexityScore_enfr s T) \<le> 100"
  by (simp add: calculateComplexityScore_def calculateComplexityScore_enfr_def clampScore_simps)

text \<open>The witness is a text whose contributions add up to 110 in the later revision
  (four power keywords, a numbered step, a debugging marker, an academic term), so the
  upper clamp is what keeps the score at 100.\<close>

lemma clamp_exercised:
  "score (calculateComplexityScore_enfr ''debug async thread exploit step 1 theory''
            \<lparr>minLengthForPower = 500, minCodeLinesForPower = 30, minScoreForPower = 50\<rparr>) = 100
   \<and> score (calculateComplexityScore ''debug async thread exploit step 1 theory''
            \<lparr>minLengthForPower = 500, minCodeLinesForPower = 30, minScoreForPower = 50\<rparr>) = 49"
  by code_simp

theorem score_in_range_witness:
  "0 \<le> score (calculateComplexityScore_enfr ''debug async thread exploit step 1 theory''
            \<lparr>minLengthForPower = 500, minCodeLinesForPower = 30, minScoreForPower = 50\<rparr>)
   \<and> score (calculateComplexityScore_enfr ''debug async thread exploit step 1 theory''
            \<lparr>minLengthForPower = 500, minCodeLinesForPower = 30, minScoreForPower = 50\<rparr>) \<le> 100
   \<and> 0 \<le> score (calculateComplexityScore ''debug async thread exploit step 1 theory''
            \<lparr>minLengthForPower = 500, minCodeLinesForPower = 30, minScoreForPower = 50\<rparr>)
   \<and> score (calculateComplexityScore ''debug async thread exploit step 1 theory''
            \<lparr>minLengthForPower = 500, minCodeLinesForPower = 30, minScoreForPower = 50\<rparr>) \<le> 100"
  using score_in_range [of "''debug async thread exploit step 1 theory''"
      "\<lparr>minLengthForPower = 500, minCodeLinesForPower = 30, minScoreForPower = 50\<rparr>"]
  by simp

lemma length_append_le:
  "length xs \<le> a \<Longrightarrow> length ys \<le> b \<Longrightarrow> length (xs @ ys) \<le> a + b"
  by simp

lemma calculateComplexityScore_signals_length:
  "length (signals (calculateComplexityScore s T)) \<le> 8"
proof -
  have "length (signals (calculateComplexityScore s T))
          \<le> Suc 0 + (Suc 0 + (Suc 0 + (Suc 0 + (Suc 0 + (Suc 0 + (Suc 0 + Suc 0))))))"
    unfolding calculateComplexityScore_signals block_signals initial_def
      score_result.simps append_Nil
    by (intro length_append_le length_optional_label)
  then show ?thesis by simp
qed

lemma calculateComplexityScore_enfr_signals_length:
  "length (signals (calculateComplexityScore_enfr s T)) \<le> 10"
proof -
  have "length (signals (calculateComplexityScore_enfr s T))
          \<le> Suc 0 + (Suc 0 + (Suc 0 + (Suc 0 + (Suc 0 + (Suc 0 + (Suc 0 + (Suc 0
               + (Suc 0 + Suc 0))))))))"
    unfolding calculateComplexityScore_enfr_signals block_signals initial_def
      score_result.simps append_Nil
    by (intro length_append_le length_optional_label)
  then show ?thesis by simp
qed

text \<open>
  Claim C9. In one pass of \<open>calculateComplexityScore\<close> each detector adds at most one
  label, so none of the label prefixes of the detectors occurs more than once in the
  returned signals, and the list has at most one entry for each detector.
\<close>

theorem signal_prefix_at_most_once:
  "list_all (\<lambda>p. length (filter (prefix p) (signals (calculateComplexityScore s T))) \<le> 1)
     [''long_message:'', ''code:'', ''power_keywords:'', ''simple_keywords:'',
      ''multi_step_reasoning'', ''debugging'', ''programming:'', ''questions:'']
   \<and> length (signals (calculateComplexityScore s T)) \<le> 8
   \<and> list_all (\<lambda>p. length (filter (prefix p) (signals (calculateComplexityScore_enfr s T))) \<le> 1)
     [''long_message:'', ''code:'', ''power_keywords:'', ''simple_keywords:'',
      ''multi_step_reasoning'', ''debugging'', ''deep_question'', ''academic_topic'',
      ''programming:'', ''questions:'']
   \<and> length (signals (calculateComplexityScore_enfr s T)) \<le> 10"
proof -
  have "list_all (\<lambda>p. length (filter (prefix p) (signals (calculateComplexityScore s T))) \<le> 1)
     [''long_message:'', ''code:'', ''power_keywords:'', ''simple_keywords:'',
      ''multi_step_reasoning'', ''debugging'', ''programming:'', ''questions:'']"
    unfolding calculateComplexityScore_signals block_signals
    by (simp add: label_simps split del: if_split cong: if_weak_cong)
  moreover
  have "list_all (\<lambda>p. length (filter (prefix p) (signals (calculateComplexityScore_enfr s T))) \<le> 1)
     [''long_message:'', ''code:'', ''power_keywords:'', ''simple_keywords:'',
      ''multi_step_reasoning'', ''debugging'', ''deep_question'', ''academic_topic'',
      ''programming:'', ''questions:'']"
    unfolding calculateComplexityScore_enfr_signals block_signals
    by (simp add: label_simps split del: if_split cong: if_weak_cong)
  ultimately show ?thesis
    using calculateComplexityScore_signals_length [of s T]
      calculateComplexityScore_enfr_signals_length [of s T]
    by blast
qed

theorem signal_prefix_at_most_once_witness:
  "signals (calculateComplexityScore_enfr ''debug async thread exploit step 1 theory''
            \<lparr>minLengthForPower = 500, minCodeLinesForPower = 30, minScoreForPower = 50\<rparr>)
     = [''power_keywords:4'', ''multi_step_reasoning'', ''debugging'', ''academic_topic'']
   \<and> list_all (\<lambda>p. length (filter (prefix p)
        (signals (calculateComplexityScore_enfr ''debug async thread exploit step 1 theory''
            \<lparr>minLengthForPower = 500, minCodeLinesForPower = 30, minScoreForPower = 50\<rparr>))) \<le> 1)
     [''long_message:'', ''code:'', ''power_keywords:'', ''simple_keywords:'',
      ''multi_step_reasoning'', ''debugging'', ''deep_question'', ''academic_topic'',
      ''programming:'', ''questions:'']"
proof -
  have "signals (calculateComplexityScore_enfr ''debug async thread exploit step 1 theory''
            \<lparr>minLengthForPower = 500, minCodeLinesForPower = 30, minScoreForPower = 50\<rparr>)
     = [''power_keywords:4'', ''multi_step_reasoning'', ''debugging'', ''academic_topic'']"
    by code_simp
  with signal_prefix_at_most_once [of "''debug async thread exploit step 1 theory''"
      "\<lparr>minLengthForPower = 500, minCodeLinesForPower = 30, minScoreForPower = 50\<rparr>"]
  show ?thesis by blast
qed



text \<open>
  Claim C4 (as amended). The power-keyword block adds \<open>min(40, matches * 10)\<close> to the
  score in the later revision and \<open>min(30, matches * 6)\<close> in \<^verbatim>\<open>src/classifier.ts\<close>, where
  \<open>matches\<close> is the case-insensitive match count of the text against the vocabulary of
  that revision; in both, the pass returns exactly one label \<open>power_keywords:\<close> with the
  match count when \<open>matches > 0\<close> and none otherwise.
\<close>

theorem power_keyword_contribution:
  "score (powerKeywordsFactor_enfr s acc)
     = score acc + min 40 (int (countKeywordMatches s POWER_KEYWORDS_enfr) * 10)
   \<and> filter (prefix ''power_keywords:'') (signals (calculateComplexityScore_enfr s T))
     = (if countKeywordMatches s POWER_KEYWORDS_enfr > 0
        then [''power_keywords:'' @ show_nat (countKeywordMatches s POWER_KEYWORDS_enfr)]
        else [])
   \<and> score (powerKeywordsFactor s acc)
     = score acc + min 30 (int (countKeywordMatches s POWER_KEYWORDS) * 6)
   \<and> filter (prefix ''power_keywords:'') (signals (calculateComplexityScore s T))
     = (if countKeywordMatches s POWER_KEYWORDS > 0
        then [''power_keywords:'' @ show_nat (countKeywordMatches s POWER_KEYWORDS)]
        else [])"
proof -
  have "filter (prefix ''power_keywords:'') (signals (calculateComplexityScore_enfr s T))
     = (if countKeywordMatches s POWER_KEYWORDS_enfr > 0
        then [''power_keywords:'' @ show_nat (countKeywordMatches s POWER_KEYWORDS_enfr)]
        else [])"
    unfolding calculateComplexityScore_enfr_signals block_signals
    by (simp add: label_simps split del: if_split cong: if_weak_cong)
  moreover
  have "filter (prefix ''power_keywords:'') (signals (calculateComplexityScore s T))
     = (if countKeywordMatches s POWER_KEYWORDS > 0
        then [''power_keywords:'' @ show_nat (countKeywordMatches s POWER_KEYWORDS)]
        else [])"
    unfolding calculateComplexityScore_signals block_signals
    by (simp add: label_simps split del: if_split cong: if_weak_cong)
  ultimately show ?thesis
    using powerKeywordsFactor_enfr_score [of s acc] powerKeywordsFactor_score [of s acc]
    by blast
qed

theorem power_keyword_contribution_witness:
  "score (powerKeywordsFactor_enfr ''Debug the async thread deadlock exploit'' initial) = 40
   \<and> filter (prefix ''power_keywords:'')
        (signals (calculateComplexityScore_enfr ''Debug the async thread deadlock exploit''
           \<lparr>minLengthForPower = 500, minCodeLinesForPower = 30, minScoreForPower = 50\<rparr>))
      = [''power_keywords:5'']
   \<and> score (powerKeywordsFactor ''Debug the async thread deadlock exploit'' initial) = 30
   \<and> filter (prefix ''power_keywords:'')
        (signals (calculateComplexityScore ''Debug the async thread deadlock exploit''
           \<lparr>minLengthForPower = 500, minCodeLinesForPower = 30, minScoreForPower = 50\<rparr>))
      = [''power_keywords:5'']"
proof -
  have "countKeywordMatches ''Debug the async thread deadlock exploit'' POWER_KEYWORDS_enfr = 5"
    and "countKeywordMatches ''Debug the async thread deadlock exploit'' POWER_KEYWORDS = 5"
    and "show_nat 5 = ''5''" and "score initial = 0"
    by code_simp+
  with power_keyword_contribution [of "''Debug the async thread deadlock exploit''" initial
      "\<lparr>minLengthForPower = 500, minCodeLinesForPower = 30, minScoreForPower = 50\<rparr>"]
  show ?thesis by simp
qed

text \<open>The claim as stated, \<open>min(40, matches * 10)\<close>, fails in \<^verbatim>\<open>src/classifier.ts\<close>: one
  match adds 6 points there.\<close>

theorem power_keyword_contribution_counterexample:
  "countKeywordMatches ''thread'' POWER_KEYWORDS = 1
   \<and> score (powerKeywordsFactor ''thread'' initial) = score initial + 6
   \<and> score (powerKeywordsFactor ''thread'' initial)
        \<noteq> score initial + min 40 (int (countKeywordMatches ''thread'' POWER_KEYWORDS) * 10)"
  by code_simp


section \<open>Properties of the classifier\<close>

lemma find_rev_filter:
  "find P (rev xs) = (case filter P xs of [] \<Rightarrow> None | u # us \<Rightarrow> Some (last (u # us)))"
proof (induction xs rule: rev_induct)
  case Nil
  show ?case by simp
next
  case (snoc x xs)
  show ?case
  proof (cases "P x")
    case True
    then show ?thesis by (cases "filter P xs") simp_all
  next
    case False
    with snoc show ?thesis by simp
  qed
qed

lemma lastUserText_spec: "lastUserText ms = spec_last_user_text ms"
  by (simp add: lastUserText_def lastUserMessage_def spec_last_user_text_def find_rev_filter
      extractTextContent_def split: list.splits)

lemma classify_with_decision:
  "usePowerModel (classify_with scorer ms T)
     = (minScoreForPower T \<le> max (score (scorer (extractTextContent ms) T))
                                 (score (scorer (spec_last_user_text ms) T)))"
  "score (classify_with scorer ms T)
     = max (score (scorer (extractTextContent ms) T)) (score (scorer (spec_last_user_text ms) T))"
  by (simp_all add: classify_with_def Let_def lastUserText_spec)

text \<open>
  Claim C1. For every message list and all thresholds, \<open>usePowerModel\<close> of
  \<open>classifyRequest\<close> holds exactly when the larger of the two scores (the score of the
  whole extracted conversation and the score of the text of the last user message, the
  empty text when there is none) reaches \<open>minScoreForPower\<close>; the reported score is that
  maximum. This holds for both revisions.
\<close>

theorem classifyRequest_decision:
  "usePowerModel (classifyRequest ms T)
     = (max (score (calculateComplexityScore (extractTextContent ms) T))
            (score (calculateComplexityScore (spec_last_user_text ms) T))
        \<ge> minScoreForPower T)
   \<and> score (classifyRequest ms T)
     = max (score (calculateComplexityScore (extractTextContent ms) T))
           (score (calculateComplexityScore (spec_last_user_text ms) T))
   \<and> usePowerModel (classifyRequest_enfr ms T)
     = (max (score (calculateComplexityScore_enfr (extractTextContent ms) T))
            (score (calculateComplexityScore_enfr (spec_last_user_text ms) T))
        \<ge> minScoreForPower T)
   \<and> score (classifyRequest_enfr ms T)
     = max (score (calculateComplexityScore_enfr (extractTextContent ms) T))
           (score (calculateComplexityScore_enfr (spec_last_user_text ms) T))"
  by (simp add: classifyRequest_def classifyRequest_enfr_def classify_with_decision)

theorem classifyRequest_decision_witness:
  "spec_last_user_text sample_conversation = ''thanks''
   \<and> score (calculateComplexityScore (extractTextContent sample_conversation)
        \<lparr>minLengthForPower = 500, minCodeLinesForPower = 30, minScoreForPower = 30\<rparr>) = 16
   \<and> score (calculateComplexityScore_enfr (extractTextContent sample_conversation)
        \<lparr>minLengthForPower = 500, minCodeLinesForPower = 30, minScoreForPower = 30\<rparr>) = 35
   \<and> usePowerModel (classifyRequest sample_conversation
        \<lparr>minLengthForPower = 500, minCodeLinesForPower = 30, minScoreForPower = 30\<rparr>) = False
   \<and> usePowerModel (classifyRequest_enfr sample_conversation
        \<lparr>minLengthForPower = 500, minCodeLinesForPower = 30, minScoreForPower = 30\<rparr>) = True"
proof -
  have "spec_last_user_text sample_conversation = ''thanks''"
    by code_simp
  moreover
  have "extractTextContent sample_conversation = ''Please debug this\<newline>ok\<newline>thanks\<newline>bye''"
    by code_simp
  moreover
  have "calculateComplexityScore ''Please debug this\<newline>ok\<newline>thanks\<newline>bye''
          \<lparr>minLengthForPower = 500, minCodeLinesForPower = 30, minScoreForPower = 30\<rparr>
        = \<lparr>score = 16, signals = [''power_keywords:1'', ''debugging'']\<rparr>"
    by code_simp
  moreover
  have "calculateComplexityScore_enfr ''Please debug this\<newline>ok\<newline>thanks\<newline>bye''
          \<lparr>minLengthForPower = 500, minCodeLinesForPower = 30, minScoreForPower = 30\<rparr>
        = \<lparr>score = 35, signals = [''power_keywords:1'', ''debugging'']\<rparr>"
    by code_simp
  moreover
  have "calculateComplexityScore ''thanks''
          \<lparr>minLengthForPower = 500, minCodeLinesForPower = 30, minScoreForPower = 30\<rparr>
        = \<lparr>score = 0, signals = [''simple_keywords:1'']\<rparr>"
    by code_simp
  moreover
  have "calculateComplexityScore_enfr ''thanks''
          \<lparr>minLengthForPower = 500, minCodeLinesForPower = 30, minScoreForPower = 30\<rparr>
        = \<lparr>score = 0, signals = [''simple_keywords:1'']\<rparr>"
    by code_simp
  ultimately show ?thesis
    using classifyRequest_decision [of sample_conversation
      "\<lparr>minLengthForPower = 500, minCodeLinesForPower = 30, minScoreForPower = 30\<rparr>"]
    by simp
qed

subsection \<open>The empty conversation\<close>

lemma empty_text_detectors:
  "countCodeLines [] = 0"
  "countKeywordMatches [] POWER_KEYWORDS = 0"
  "countKeywordMatches [] POWER_KEYWORDS_enfr = 0"
  "countKeywordMatches [] SIMPLE_KEYWORDS = 0"
  "countKeywordMatches [] SIMPLE_KEYWORDS_enfr = 0"
  "countKeywordMatches [] PROGRAMMING_LANGUAGES = 0"
  "detectMultiStepReasoning [] = False"
  "detectMultiStepReasoning_enfr [] = False"
  "detectDebugging [] = False"
  "detectDebugging_enfr [] = False"
  "list_ex (\<lambda>p. test p []) deepQuestionPatterns = False"
  "list_ex (\<lambda>p. test p []) academicPatterns = False"
  "match_count question_mark_pattern [] = 0"
  by code_simp+

lemma empty_text_score:
  assumes "0 \<le> minLengthForPower T" and "0 \<le> minCodeLinesForPower T"
  shows "calculateComplexityScore [] T = \<lparr>score = 0, signals = []\<rparr>"
    and "calculateComplexityScore_enfr [] T = \<lparr>score = 0, signals = []\<rparr>"
  using assms
  by (simp_all add: calculateComplexityScore_def calculateComplexityScore_enfr_def
      lengthFactor_def codeLinesFactor_def powerKeywordsFactor_def powerKeywordsFactor_enfr_def
      simpleKeywordsFactor_def simpleKeywordsFactor_enfr_def multiStepFactor_def
      multiStepFactor_enfr_def debuggingFactor_def debuggingFactor_enfr_def
      deepQuestionFactor_enfr_def academicFactor_enfr_def languageFactor_def questionFactor_def
      clampScore_def initial_def empty_text_detectors)

text \<open>
  Claim C6 (as amended). For all thresholds with non-negative \<open>minLengthForPower\<close> and
  \<open>minCodeLinesForPower\<close>, the empty message sequence gives the empty extracted text,
  score 0 and no signals, and \<open>usePowerModel\<close> is \<open>minScoreForPower <= 0\<close>: the default
  tier is selected exactly when \<open>minScoreForPower\<close> is positive.
\<close>

theorem empty_conversation_default_tier:
  assumes "0 \<le> minLengthForPower T" and "0 \<le> minCodeLinesForPower T"
  shows "extractTextContent [] = []
    \<and> calculateComplexityScore [] T = \<lparr>score = 0, signals = []\<rparr>
    \<and> score (classifyRequest [] T) = 0 \<and> signals (classifyRequest [] T) = []
    \<and> usePowerModel (classifyRequest [] T) = (minScoreForPower T \<le> 0)
    \<and> calculateComplexityScore_enfr [] T = \<lparr>score = 0, signals = []\<rparr>
    \<and> score (classifyRequest_enfr [] T) = 0 \<and> signals (classifyRequest_enfr [] T) = []
    \<and> usePowerModel (classifyRequest_enfr [] T) = (minScoreForPower T \<le> 0)"
  using assms empty_text_score [of T]
  by (simp add: classifyRequest_def classifyRequest_enfr_def classify_with_def Let_def
      lastUserText_def lastUserMessage_def extractTextContent_def)

theorem empty_conversation_default_tier_witness:
  "(0::int) \<le> minLengthForPower \<lparr>minLengthForPower = 500, minCodeLinesForPower = 30, minScoreForPower = 50\<rparr>
   \<and> (0::int) \<le> minCodeLinesForPower \<lparr>minLengthForPower = 500, minCodeLinesForPower = 30, minScoreForPower = 50\<rparr>
   \<and> classifyRequest [] \<lparr>minLengthForPower = 500, minCodeLinesForPower = 30, minScoreForPower = 50\<rparr>
     = \<lparr>score = 0, signals = [], usePowerModel = False,
        reason = ''Complexity score 0 < 50 - using default model''\<rparr>
   \<and> score (classifyRequest_enfr []
        \<lparr>minLengthForPower = 500, minCodeLinesForPower = 30, minScoreForPower = 50\<rparr>) = 0
   \<and> signals (classifyRequest_enfr []
        \<lparr>minLengthForPower = 500, minCodeLinesForPower = 30, minScoreForPower = 50\<rparr>) = []
   \<and> usePowerModel (classifyRequest_enfr []
        \<lparr>minLengthForPower = 500, minCodeLinesForPower = 30, minScoreForPower = 50\<rparr>) = False
   \<and> score (classifyRequest []
        \<lparr>minLengthForPower = 0, minCodeLinesForPower = 0, minScoreForPower = 0\<rparr>) = 0
   \<and> signals (classifyRequest []
        \<lparr>minLengthForPower = 0, minCodeLinesForPower = 0, minScoreForPower = 0\<rparr>) = []"
proof -
  have "classifyRequest [] \<lparr>minLengthForPower = 500, minCodeLinesForPower = 30, minScoreForPower = 50\<rparr>
     = \<lparr>score = 0, signals = [], usePowerModel = False,
        reason = ''Complexity score 0 < 50 - using default model''\<rparr>"
    by code_simp
  then show ?thesis
    using empty_conversation_default_tier
      [of "\<lparr>minLengthForPower = 500, minCodeLinesForPower = 30, minScoreForPower = 50\<rparr>"]
      empty_conversation_default_tier
      [of "\<lparr>minLengthForPower = 0, minCodeLinesForPower = 0, minScoreForPower = 0\<rparr>"]
    by simp
qed

text \<open>The claim as stated admits \<open>minScoreForPower = 0\<close>, a non-negative field; the
  comparison \<open>score >= minScoreForPower\<close> then selects the power tier.\<close>

theorem empty_conversation_counterexample:
  "0 \<le> minLengthForPower \<lparr>minLengthForPower = 0, minCodeLinesForPower = 0, minScoreForPower = 0\<rparr>
   \<and> 0 \<le> minCodeLinesForPower \<lparr>minLengthForPower = 0, minCodeLinesForPower = 0, minScoreForPower = 0\<rparr>
   \<and> 0 \<le> minScoreForPower \<lparr>minLengthForPower = 0, minCodeLinesForPower = 0, minScoreForPower = 0\<rparr>
   \<and> usePowerModel (classifyRequest []
        \<lparr>minLengthForPower = 0, minCodeLinesForPower = 0, minScoreForPower = 0\<rparr>) = True
   \<and> usePowerModel (classifyRequest_enfr []
        \<lparr>minLengthForPower = 0, minCodeLinesForPower = 0, minScoreForPower = 0\<rparr>) = True"
  by code_simp



section \<open>Appending a power keyword\<close>

lemma toLowerCase_append: "toLowerCase (a @ b) = toLowerCase a @ toLowerCase b"
  by (simp add: toLowerCase_def)

lemma str_includes_append: "str_includes s k \<Longrightarrow> str_includes (s @ x) k"
  by (simp add: str_includes_def sublist_append)

lemma length_filter_mono:
  "(\<And>x. x \<in> set xs \<Longrightarrow> P x \<Longrightarrow> Q x) \<Longrightarrow> length (filter P xs) \<le> length (filter Q xs)"
  by (induction xs) auto

lemma countKeywordMatches_append:
  "countKeywordMatches s K \<le> countKeywordMatches (s @ x) K"
  unfolding countKeywordMatches_def Let_def
  by (rule length_filter_mono) (simp add: toLowerCase_append str_includes_append)

lemma countKeywordMatches_pos:
  assumes "k \<in> set K" and "str_includes (toLowerCase s) (toLowerCase k)"
  shows "0 < countKeywordMatches s K"
proof -
  from assms have "k \<in> set (filter (\<lambda>kw. str_includes (toLowerCase s) (toLowerCase kw)) K)"
    by simp
  then show ?thesis
    unfolding countKeywordMatches_def Let_def by (rule length_pos_if_in_set)
qed

lemma appended_keyword_included:
  assumes "0 < n"
  shows "str_includes (toLowerCase (s @ concat (replicate n k))) (toLowerCase k)"
proof -
  from assms obtain m where "n = Suc m"
    by (cases n) auto
  then show ?thesis
    by (simp add: toLowerCase_append str_includes_def)
qed

lemma map2_replicate: "map2 f xs (replicate (length xs) y) = map (\<lambda>x. f x y) xs"
  by (induction xs) auto

lemma question_count: "match_count question_mark_pattern t = length (filter (\<lambda>c. c = CHR ''?'') t)"
  by (simp add: match_count_def question_mark_pattern_def str_def set_back_def set_has_def
      map2_replicate comp_def)

lemma question_count_append:
  "match_count question_mark_pattern s \<le> match_count question_mark_pattern (s @ x)"
  by (simp add: question_count)

lemma clamp_mono: "a \<le> b \<Longrightarrow> max 0 (min 100 a) \<le> max (0::int) (min 100 b)"
  by simp

lemma lengthFactor_mono:
  "length s \<le> length s' \<Longrightarrow> score (lengthFactor s T initial) \<le> score (lengthFactor s' T initial)"
  by (auto simp: lengthFactor_score initial_def intro: zdiv_mono1 order_trans [of _ 0]
      simp: pos_imp_zdiv_nonneg_iff)


lemma powerKeywordsFactor_mono:
  "countKeywordMatches s POWER_KEYWORDS \<le> countKeywordMatches s' POWER_KEYWORDS
   \<Longrightarrow> score (powerKeywordsFactor s acc) \<le> score (powerKeywordsFactor s' acc)"
  by (simp add: powerKeywordsFactor_score)

lemma powerKeywordsFactor_enfr_mono:
  "countKeywordMatches s POWER_KEYWORDS_enfr \<le> countKeywordMatches s' POWER_KEYWORDS_enfr
   \<Longrightarrow> score (powerKeywordsFactor_enfr s acc) \<le> score (powerKeywordsFactor_enfr s' acc)"
  by (simp add: powerKeywordsFactor_enfr_score)

lemma simpleKeywordsFactor_after_power:
  "0 < countKeywordMatches s' POWER_KEYWORDS
   \<Longrightarrow> score (simpleKeywordsFactor s initial) \<le> score (simpleKeywordsFactor s' initial)"
  by (simp add: simpleKeywordsFactor_score initial_def)

lemma simpleKeywordsFactor_enfr_after_power:
  "0 < countKeywordMatches s' POWER_KEYWORDS_enfr
   \<Longrightarrow> score (simpleKeywordsFactor_enfr s initial) \<le> score (simpleKeywordsFactor_enfr s' initial)"
  by (simp add: simpleKeywordsFactor_enfr_score initial_def)

lemma languageFactor_mono:
  "score (languageFactor s initial) \<le> score (languageFactor (s @ x) initial)"
  using countKeywordMatches_append [of s PROGRAMMING_LANGUAGES x]
  by (simp add: languageFactor_score)

lemma questionFactor_mono:
  "score (questionFactor s initial) \<le> score (questionFactor (s @ x) initial)"
  using question_count_append [of s x]
  by (auto simp: questionFactor_score initial_def)

lemma score_after_append:
  assumes code: "countCodeLines (s @ x) = countCodeLines s"
    and pos: "0 < countKeywordMatches (s @ x) POWER_KEYWORDS"
    and multi: "detectMultiStepReasoning s \<longrightarrow> detectMultiStepReasoning (s @ x)"
    and dbg: "detectDebugging s \<longrightarrow> detectDebugging (s @ x)"
  shows "score (calculateComplexityScore s T) \<le> score (calculateComplexityScore (s @ x) T)"
proof -
  have 1: "score (lengthFactor s T initial) \<le> score (lengthFactor (s @ x) T initial)"
    by (rule lengthFactor_mono) simp
  have 2: "score (codeLinesFactor s T initial) = score (codeLinesFactor (s @ x) T initial)"
    by (simp add: codeLinesFactor_score code)
  have 3: "score (powerKeywordsFactor s initial) \<le> score (powerKeywordsFactor (s @ x) initial)"
    by (rule powerKeywordsFactor_mono) (rule countKeywordMatches_append)
  have 4: "score (simpleKeywordsFactor s initial) \<le> score (simpleKeywordsFactor (s @ x) initial)"
    by (rule simpleKeywordsFactor_after_power) (rule pos)
  have 5: "score (multiStepFactor s initial) \<le> score (multiStepFactor (s @ x) initial)"
    using multi by (simp add: multiStepFactor_score)
  have 6: "score (debuggingFactor s initial) \<le> score (debuggingFactor (s @ x) initial)"
    using dbg by (simp add: debuggingFactor_score)
  note 7 = languageFactor_mono [of s x] and 8 = questionFactor_mono [of s x]
  show ?thesis
    unfolding calculateComplexityScore_score
    by (rule clamp_mono) (use 1 2 3 4 5 6 7 8 in linarith)
qed

lemma score_enfr_after_append:
  assumes code: "countCodeLines (s @ x) = countCodeLines s"
    and pos: "0 < countKeywordMatches (s @ x) POWER_KEYWORDS_enfr"
    and multi: "detectMultiStepReasoning_enfr s \<longrightarrow> detectMultiStepReasoning_enfr (s @ x)"
    and dbg: "detectDebugging_enfr s \<longrightarrow> detectDebugging_enfr (s @ x)"
    and deep: "list_ex (\<lambda>p. test p s) deepQuestionPatterns
                 \<longrightarrow> list_ex (\<lambda>p. test p (s @ x)) deepQuestionPatterns"
    and acad: "list_ex (\<lambda>p. test p s) academicPatterns
                 \<longrightarrow> list_ex (\<lambda>p. test p (s @ x)) academicPatterns"
  shows "score (calculateComplexityScore_enfr s T)
           \<le> score (calculateComplexityScore_enfr (s @ x) T)"
proof -
  have 1: "score (lengthFactor s T initial) \<le> score (lengthFactor (s @ x) T initial)"
    by (rule lengthFactor_mono) simp
  have 2: "score (codeLinesFactor s T initial) = score (codeLinesFactor (s @ x) T initial)"
    by (simp add: codeLinesFactor_score code)
  have 3: "score (powerKeywordsFactor_enfr s initial)
             \<le> score (powerKeywordsFactor_enfr (s @ x) initial)"
    by (rule powerKeywordsFactor_enfr_mono) (rule countKeywordMatches_append)
  have 4: "score (simpleKeywordsFactor_enfr s initial)
             \<le> score (simpleKeywordsFactor_enfr (s @ x) initial)"
    by (rule simpleKeywordsFactor_enfr_after_power) (rule pos)
  have 5: "score (multiStepFactor_enfr s initial) \<le> score (multiStepFactor_enfr (s @ x) initial)"
    using multi by (simp add: multiStepFactor_enfr_score)
  have 6: "score (debuggingFactor_enfr s initial) \<le> score (debuggingFactor_enfr (s @ x) initial)"
    using dbg by (simp add: debuggingFactor_enfr_score)
  have 7: "score (deepQuestionFactor_enfr s initial)
             \<le> score (deepQuestionFactor_enfr (s @ x) initial)"
    using deep by (simp add: deepQuestionFactor_enfr_score)
  have 8: "score (academicFactor_enfr s initial) \<le> score (academicFactor_enfr (s @ x) initial)"
    using acad by (simp add: academicFactor_enfr_score)
  note 9 = languageFactor_mono [of s x] and 10 = questionFactor_mono [of s x]
  show ?thesis
    unfolding calculateComplexityScore_enfr_score
    by (rule clamp_mono) (use 1 2 3 4 5 6 7 8 9 10 in linarith)
qed

text \<open>
  Claim C8 (as amended). Appending one or more occurrences of a power keyword \<open>k\<close> to a
  text \<open>s\<close> never decreases the power-keyword match count nor the contribution of the
  power-keyword block, and it never decreases the score of \<open>calculateComplexityScore\<close>
  when the appended text leaves the code-line count as it was and every pattern detector
  that matched \<open>s\<close> still matches. Both revisions.
\<close>

theorem appended_power_keyword_monotone:
  "countKeywordMatches s POWER_KEYWORDS
     \<le> countKeywordMatches (s @ concat (replicate n k)) POWER_KEYWORDS
   \<and> score (powerKeywordsFactor s acc)
     \<le> score (powerKeywordsFactor (s @ concat (replicate n k)) acc)
   \<and> countKeywordMatches s POWER_KEYWORDS_enfr
     \<le> countKeywordMatches (s @ concat (replicate n k)) POWER_KEYWORDS_enfr
   \<and> score (powerKeywordsFactor_enfr s acc)
     \<le> score (powerKeywordsFactor_enfr (s @ concat (replicate n k)) acc)
   \<and> (k \<in> set POWER_KEYWORDS \<and> 0 < n
       \<and> countCodeLines (s @ concat (replicate n k)) = countCodeLines s
       \<and> (detectMultiStepReasoning s \<longrightarrow> detectMultiStepReasoning (s @ concat (replicate n k)))
       \<and> (detectDebugging s \<longrightarrow> detectDebugging (s @ concat (replicate n k)))
      \<longrightarrow> score (calculateComplexityScore s T)
            \<le> score (calculateComplexityScore (s @ concat (replicate n k)) T))
   \<and> (k \<in> set POWER_KEYWORDS_enfr \<and> 0 < n
       \<and> countCodeLines (s @ concat (replicate n k)) = countCodeLines s
       \<and> (detectMultiStepReasoning_enfr s
            \<longrightarrow> detectMultiStepReasoning_enfr (s @ concat (replicate n k)))
       \<and> (detectDebugging_enfr s \<longrightarrow> detectDebugging_enfr (s @ concat (replicate n k)))
       \<and> (list_ex (\<lambda>p. test p s) deepQuestionPatterns
            \<longrightarrow> list_ex (\<lambda>p. test p (s @ concat (replicate n k))) deepQuestionPatterns)
       \<and> (list_ex (\<lambda>p. test p s) academicPatterns
            \<longrightarrow> list_ex (\<lambda>p. test p (s @ concat (replicate n k))) academicPatterns)
      \<longrightarrow> score (calculateComplexityScore_enfr s T)
            \<le> score (calculateComplexityScore_enfr (s @ concat (replicate n k)) T))"
proof (intro conjI impI)
  show "countKeywordMatches s POWER_KEYWORDS
          \<le> countKeywordMatches (s @ concat (replicate n k)) POWER_KEYWORDS"
    by (rule countKeywordMatches_append)
  show "score (powerKeywordsFactor s acc)
          \<le> score (powerKeywordsFactor (s @ concat (replicate n k)) acc)"
    by (rule powerKeywordsFactor_mono) (rule countKeywordMatches_append)
  show "countKeywordMatches s POWER_KEYWORDS_enfr
          \<le> countKeywordMatches (s @ concat (replicate n k)) POWER_KEYWORDS_enfr"
    by (rule countKeywordMatches_append)
  show "score (powerKeywordsFactor_enfr s acc)
          \<le> score (powerKeywordsFactor_enfr (s @ concat (replicate n k)) acc)"
    by (rule powerKeywordsFactor_enfr_mono) (rule countKeywordMatches_append)
next
  assume h: "k \<in> set POWER_KEYWORDS \<and> 0 < n
       \<and> countCodeLines (s @ concat (replicate n k)) = countCodeLines s
       \<and> (detectMultiStepReasoning s \<longrightarrow> detectMultiStepReasoning (s @ concat (replicate n k)))
       \<and> (detectDebugging s \<longrightarrow> detectDebugging (s @ concat (replicate n k)))"
  then have "0 < countKeywordMatches (s @ concat (replicate n k)) POWER_KEYWORDS"
    by (intro countKeywordMatches_pos [of k] appended_keyword_included) simp_all
  with h show "score (calculateComplexityScore s T)
            \<le> score (calculateComplexityScore (s @ concat (replicate n k)) T)"
    by (intro score_after_append) simp_all
next
  assume h: "k \<in> set POWER_KEYWORDS_enfr \<and> 0 < n
       \<and> countCodeLines (s @ concat (replicate n k)) = countCodeLines s
       \<and> (detectMultiStepReasoning_enfr s
            \<longrightarrow> detectMultiStepReasoning_enfr (s @ concat (replicate n k)))
       \<and> (detectDebugging_enfr s \<longrightarrow> detectDebugging_enfr (s @ concat (replicate n k)))
       \<and> (list_ex (\<lambda>p. test p s) deepQuestionPatterns
            \<longrightarrow> list_ex (\<lambda>p. test p (s @ concat (replicate n k))) deepQuestionPatterns)
       \<and> (list_ex (\<lambda>p. test p s) academicPatterns
            \<longrightarrow> list_ex (\<lambda>p. test p (s @ concat (replicate n k))) academicPatterns)"
  then have "0 < countKeywordMatches (s @ concat (replicate n k)) POWER_KEYWORDS_enfr"
    by (intro countKeywordMatches_pos [of k] appended_keyword_included) simp_all
  with h show "score (calculateComplexityScore_enfr s T)
            \<le> score (calculateComplexityScore_enfr (s @ concat (replicate n k)) T)"
    by (intro score_enfr_after_append) simp_all
qed


theorem appended_power_keyword_monotone_witness:
  "''debug'' \<in> set POWER_KEYWORDS \<and> ''debug'' \<in> set POWER_KEYWORDS_enfr \<and> (0::nat) < 2
   \<and> countCodeLines (''fix this'' @ concat (replicate 2 ''debug'')) = countCodeLines ''fix this''
   \<and> detectDebugging (''fix this'' @ concat (replicate 2 ''debug''))
   \<and> detectDebugging_enfr (''fix this'' @ concat (replicate 2 ''debug''))
   \<and> \<not> detectMultiStepReasoning ''fix this'' \<and> \<not> detectMultiStepReasoning_enfr ''fix this''
   \<and> \<not> list_ex (\<lambda>p. test p ''fix this'') deepQuestionPatterns
   \<and> \<not> list_ex (\<lambda>p. test p ''fix this'') academicPatterns
   \<and> score (calculateComplexityScore ''fix this''
        \<lparr>minLengthForPower = 500, minCodeLinesForPower = 30, minScoreForPower = 50\<rparr>)
      \<le> score (calculateComplexityScore (''fix this'' @ concat (replicate 2 ''debug''))
        \<lparr>minLengthForPower = 500, minCodeLinesForPower = 30, minScoreForPower = 50\<rparr>)
   \<and> score (calculateComplexityScore_enfr ''fix this''
        \<lparr>minLengthForPower = 500, minCodeLinesForPower = 30, minScoreForPower = 50\<rparr>)
      \<le> score (calculateComplexityScore_enfr (''fix this'' @ concat (replicate 2 ''debug''))
        \<lparr>minLengthForPower = 500, minCodeLinesForPower = 30, minScoreForPower = 50\<rparr>)"
proof -
  have hyps:
    "''debug'' \<in> set POWER_KEYWORDS" "''debug'' \<in> set POWER_KEYWORDS_enfr"
    "countCodeLines (''fix this'' @ concat (replicate 2 ''debug'')) = countCodeLines ''fix this''"
    "detectDebugging (''fix this'' @ concat (replicate 2 ''debug''))"
    "detectDebugging_enfr (''fix this'' @ concat (replicate 2 ''debug''))"
    "\<not> detectMultiStepReasoning ''fix this''" "\<not> detectMultiStepReasoning_enfr ''fix this''"
    "\<not> list_ex (\<lambda>p. test p ''fix this'') deepQuestionPatterns"
    "\<not> list_ex (\<lambda>p. test p ''fix this'') academicPatterns"
    by code_simp+
  with appended_power_keyword_monotone [of "''fix this''" 2 "''debug''" initial
      "\<lparr>minLengthForPower = 500, minCodeLinesForPower = 30, minScoreForPower = 50\<rparr>"]
  show ?thesis by simp
qed

text \<open>
  The claim as stated fails. With the default thresholds a text of 30 code lines that
  ends in a line feed and already holds the keyword \<open>async\<close> scores 5 points for its code
  lines (the flat contribution for more than 10 lines). Appending \<open>async\<close> once more
  starts a 31st code line: the count passes \<open>minCodeLinesForPower = 30\<close>, the contribution
  becomes \<open>floor((31 - 30) / 2) = 0\<close>, and the keyword count stays at 1.
\<close>

lemma thirty_code_lines_score:
  "calculateComplexityScore thirty_code_lines
     \<lparr>minLengthForPower = 500, minCodeLinesForPower = 30, minScoreForPower = 50\<rparr>
   = \<lparr>score = 11, signals = [''code:30lines'', ''power_keywords:1'']\<rparr>"
  by code_simp

lemma thirty_code_lines_async_score:
  "calculateComplexityScore (thirty_code_lines @ ''async'')
     \<lparr>minLengthForPower = 500, minCodeLinesForPower = 30, minScoreForPower = 50\<rparr>
   = \<lparr>score = 6, signals = [''code:31lines'', ''power_keywords:1'']\<rparr>"
  by code_simp

lemma thirty_code_lines_score_enfr:
  "calculateComplexityScore_enfr thirty_code_lines
     \<lparr>minLengthForPower = 500, minCodeLinesForPower = 30, minScoreForPower = 50\<rparr>
   = \<lparr>score = 15, signals = [''code:30lines'', ''power_keywords:1'']\<rparr>"
  by code_simp

lemma thirty_code_lines_async_score_enfr:
  "calculateComplexityScore_enfr (thirty_code_lines @ ''async'')
     \<lparr>minLengthForPower = 500, minCodeLinesForPower = 30, minScoreForPower = 50\<rparr>
   = \<lparr>score = 10, signals = [''code:31lines'', ''power_keywords:1'']\<rparr>"
  by code_simp

theorem appended_power_keyword_counterexample:
  "''async'' \<in> set POWER_KEYWORDS \<and> ''async'' \<in> set POWER_KEYWORDS_enfr
   \<and> score (calculateComplexityScore (thirty_code_lines @ concat (replicate 1 ''async''))
        \<lparr>minLengthForPower = 500, minCodeLinesForPower = 30, minScoreForPower = 50\<rparr>)
      < score (calculateComplexityScore thirty_code_lines
        \<lparr>minLengthForPower = 500, minCodeLinesForPower = 30, minScoreForPower = 50\<rparr>)
   \<and> score (calculateComplexityScore_enfr (thirty_code_lines @ concat (replicate 1 ''async''))
        \<lparr>minLengthForPower = 500, minCodeLinesForPower = 30, minScoreForPower = 50\<rparr>)
      < score (calculateComplexityScore_enfr thirty_code_lines
        \<lparr>minLengthForPower = 500, minCodeLinesForPower = 30, minScoreForPower = 50\<rparr>)"
proof -
  have "''async'' \<in> set POWER_KEYWORDS" and "''async'' \<in> set POWER_KEYWORDS_enfr"
    by code_simp+
  then show ?thesis
    by (simp add: thirty_code_lines_score thirty_code_lines_async_score
        thirty_code_lines_score_enfr thirty_code_lines_async_score_enfr)
qed



section \<open>Properties of the router\<close>

lemma forward_chunks_map: "forward_chunks cs = map normalize_chunk cs"
  by (induction cs) simp_all

lemma sample_request_classified:
  "classifyRequest (messages sample_request) default_thresholds
     = \<lparr>score = 16, signals = [''power_keywords:1'', ''debugging''], usePowerModel = False,
        reason = ''Complexity score 16 < 50 - using default model''\<rparr>"
  "classifyRequest_enfr (messages sample_request) default_thresholds
     = \<lparr>score = 35, signals = [''power_keywords:1'', ''debugging''], usePowerModel = False,
        reason = ''Complexity score 35 < 50 - using default model''\<rparr>"
  by code_simp+

lemma sample_power_request_classified:
  "usePowerModel (classifyRequest_enfr (messages sample_power_request) default_thresholds)"
  by code_simp

text \<open>
  Claim C2 (as amended). For a non-streaming request: when the call on the selected tier
  throws an instance of \<open>Error\<close> and that tier is \<open>default\<close>, \<open>routeRequest\<close> makes
  exactly one further call, to the power client, with the same messages, temperature and
  max-token parameters and the power model; when that call succeeds the response has
  \<open>_router.tier = power\<close> and \<open>_router.signals\<close> is the classification's signals with
  \<open>fallback_after_error\<close> appended; when it throws, the thrown value reaches the caller
  after these two calls. When the selected tier is \<open>power\<close>, the thrown value of the one
  call reaches the caller.
\<close>

theorem routeRequest_fallback:
  fixes config :: router_config and classify :: classifier and be :: "'s backend"
    and request :: chat_completion_request and w :: "'s world"
  defines "cl \<equiv> classify (messages request) (thresholds config)"
  defines "p1 \<equiv> params_for (defaultModel config) request False"
  defines "p2 \<equiv> params_for (powerModel config) request False"
  shows
    "(\<not> usePowerModel cl
        \<and> create be DefaultClient p1 (backend_state w) = (Inl (ErrorInstance msg), sa)
        \<and> create be PowerClient p2 sa = (Inr reply, sb)
      \<longrightarrow> routeRequest config classify be request w
          = (Inr \<lparr>response = build_response reply PowerTier (model (powerModel config)) (score cl)
                               (signals cl @ [''fallback_after_error'']),
                  result_tier = PowerTier, classification = cl\<rparr>,
             \<lparr>backend_state = sb, calls = calls w @ [(DefaultClient, p1), (PowerClient, p2)]\<rparr>))
     \<and> (\<not> usePowerModel cl
        \<and> create be DefaultClient p1 (backend_state w) = (Inl (ErrorInstance msg), sa)
        \<and> create be PowerClient p2 sa = (Inl err, sb)
      \<longrightarrow> routeRequest config classify be request w
          = (Inl err,
             \<lparr>backend_state = sb, calls = calls w @ [(DefaultClient, p1), (PowerClient, p2)]\<rparr>))
     \<and> (usePowerModel cl \<and> create be PowerClient p2 (backend_state w) = (Inl e, sa)
      \<longrightarrow> routeRequest config classify be request w
          = (Inl e, \<lparr>backend_state = sa, calls = calls w @ [(PowerClient, p2)]\<rparr>))
     \<and> p_messages p2 = messages request \<and> p_temperature p2 = temperature request
     \<and> p_max_tokens p2 = max_tokens request \<and> p_model p2 = model (powerModel config)
     \<and> router_tier (router (build_response reply PowerTier (model (powerModel config)) (score cl)
                               (signals cl @ [''fallback_after_error'']))) = PowerTier
     \<and> router_signals (router (build_response reply PowerTier (model (powerModel config)) (score cl)
                               (signals cl @ [''fallback_after_error''])))
         = signals cl @ [''fallback_after_error'']"
  unfolding cl_def p1_def p2_def
  by (simp add: routeRequest_def call_create_def Let_def params_for_def build_response_def)


theorem routeRequest_fallback_witness:
  "routeRequest sample_config classifyRequest_enfr
     (scripted (Inl (ErrorInstance ''ECONNREFUSED'')) (Inr sample_completion) (Inr sample_upstream) (Inr sample_upstream))
     sample_request fresh_world
   = (Inr \<lparr>response = build_response sample_completion PowerTier ''claude-opus-4-5-20250205'' 35
                        [''power_keywords:1'', ''debugging'', ''fallback_after_error''],
           result_tier = PowerTier,
           classification = classifyRequest_enfr (messages sample_request) (thresholds sample_config)\<rparr>,
      \<lparr>backend_state = 2,
       calls = [(DefaultClient, params_for (defaultModel sample_config) sample_request False),
                (PowerClient, params_for (powerModel sample_config) sample_request False)]\<rparr>)
   \<and> routeRequest sample_config classifyRequest_enfr
     (scripted (Inl (ErrorInstance ''ECONNREFUSED'')) (Inl (ErrorInstance ''overloaded'')) (Inr sample_upstream) (Inr sample_upstream))
     sample_request fresh_world
   = (Inl (ErrorInstance ''overloaded''),
      \<lparr>backend_state = 2,
       calls = [(DefaultClient, params_for (defaultModel sample_config) sample_request False),
                (PowerClient, params_for (powerModel sample_config) sample_request False)]\<rparr>)
   \<and> routeRequest sample_config classifyRequest_enfr
     (scripted (Inr sample_completion) (Inl (ErrorInstance ''overloaded'')) (Inr sample_upstream) (Inr sample_upstream))
     sample_power_request fresh_world
   = (Inl (ErrorInstance ''overloaded''),
      \<lparr>backend_state = 1,
       calls = [(PowerClient, params_for (powerModel sample_config) sample_power_request False)]\<rparr>)"
  using
    routeRequest_fallback [where config = sample_config and classify = classifyRequest_enfr
      and request = sample_request and w = fresh_world and msg = "''ECONNREFUSED''"
      and be = "scripted (Inl (ErrorInstance ''ECONNREFUSED'')) (Inr sample_completion) (Inr sample_upstream) (Inr sample_upstream)"
      and sa = 1 and sb = 2 and reply = sample_completion]
    routeRequest_fallback [where config = sample_config and classify = classifyRequest_enfr
      and request = sample_request and w = fresh_world and msg = "''ECONNREFUSED''"
      and be = "scripted (Inl (ErrorInstance ''ECONNREFUSED'')) (Inl (ErrorInstance ''overloaded'')) (Inr sample_upstream) (Inr sample_upstream)"
      and sa = 1 and sb = 2 and err = "ErrorInstance ''overloaded''"]
    routeRequest_fallback [where config = sample_config and classify = classifyRequest_enfr
      and request = sample_power_request and w = fresh_world
      and be = "scripted (Inr sample_completion) (Inl (ErrorInstance ''overloaded'')) (Inr sample_upstream) (Inr sample_upstream)"
      and sa = 1 and e = "ErrorInstance ''overloaded''"]
    sample_power_request_classified
  by (simp add: sample_request_classified scripted_def fresh_world_def sample_config_def)


text \<open>The claim as stated promises the retry for every failure of the default call.
  A thrown value that is not an instance of \<open>Error\<close> is passed on after the one call.\<close>

theorem routeRequest_fallback_counterexample:
  "usePowerModel (classifyRequest_enfr (messages sample_request) (thresholds sample_config)) = False
   \<and> create (scripted (Inl (OtherValue ''timeout'')) (Inr sample_completion) (Inr sample_upstream) (Inr sample_upstream)) DefaultClient
        (params_for (defaultModel sample_config) sample_request False) 0
      = (Inl (OtherValue ''timeout''), 1)
   \<and> routeRequest sample_config classifyRequest_enfr
        (scripted (Inl (OtherValue ''timeout'')) (Inr sample_completion) (Inr sample_upstream) (Inr sample_upstream))
        sample_request fresh_world
      = (Inl (OtherValue ''timeout''),
         \<lparr>backend_state = 1,
          calls = [(DefaultClient, params_for (defaultModel sample_config) sample_request False)]\<rparr>)"
  by (simp add: routeRequest_def call_create_def Let_def sample_request_classified scripted_def
      fresh_world_def sample_config_def)

text \<open>
  Claim C10. For a non-streaming request classified to the default tier whose default
  call throws: the fallback call to the power client is made exactly when the thrown
  value is an instance of \<open>Error\<close>; any other thrown value reaches the caller after the
  one call, with no fallback.
\<close>

theorem fallback_requires_Error_instance:
  fixes config :: router_config and classify :: classifier and be :: "'s backend"
    and request :: chat_completion_request and w :: "'s world"
  defines "cl \<equiv> classify (messages request) (thresholds config)"
  defines "p1 \<equiv> params_for (defaultModel config) request False"
  defines "p2 \<equiv> params_for (powerModel config) request False"
  shows
    "(\<not> usePowerModel cl
        \<and> create be DefaultClient p1 (backend_state w) = (Inl (OtherValue v), sa)
      \<longrightarrow> routeRequest config classify be request w
          = (Inl (OtherValue v), \<lparr>backend_state = sa, calls = calls w @ [(DefaultClient, p1)]\<rparr>))
     \<and> (\<not> usePowerModel cl \<and> create be DefaultClient p1 (backend_state w) = (Inl e, sa)
      \<longrightarrow> calls (snd (routeRequest config classify be request w))
          = (if instanceof_Error e then calls w @ [(DefaultClient, p1), (PowerClient, p2)]
             else calls w @ [(DefaultClient, p1)]))"
  unfolding cl_def p1_def p2_def
  by (cases e)
     (auto simp: routeRequest_def call_create_def Let_def split: prod.splits sum.splits)

theorem fallback_requires_Error_instance_witness:
  "routeRequest sample_config classifyRequest
     (scripted (Inl (OtherValue ''aborted'')) (Inr sample_completion) (Inr sample_upstream) (Inr sample_upstream))
     sample_request fresh_world
   = (Inl (OtherValue ''aborted''),
      \<lparr>backend_state = 1,
       calls = [(DefaultClient, params_for (defaultModel sample_config) sample_request False)]\<rparr>)
   \<and> calls (snd (routeRequest sample_config classifyRequest
        (scripted (Inl (ErrorInstance ''ECONNRESET'')) (Inr sample_completion) (Inr sample_upstream) (Inr sample_upstream))
        sample_request fresh_world))
     = [(DefaultClient, params_for (defaultModel sample_config) sample_request False),
        (PowerClient, params_for (powerModel sample_config) sample_request False)]"
  using
    fallback_requires_Error_instance [where config = sample_config
      and classify = classifyRequest and request = sample_request and w = fresh_world
      and be = "scripted (Inl (OtherValue ''aborted'')) (Inr sample_completion) (Inr sample_upstream) (Inr sample_upstream)"
      and v = "''aborted''" and sa = 1]
    fallback_requires_Error_instance [where config = sample_config
      and classify = classifyRequest and request = sample_request and w = fresh_world
      and be = "scripted (Inl (ErrorInstance ''ECONNRESET'')) (Inr sample_completion) (Inr sample_upstream) (Inr sample_upstream)"
      and e = "ErrorInstance ''ECONNRESET''" and sa = 1]
  by (simp add: sample_request_classified scripted_def fresh_world_def sample_config_def)

text \<open>
  Claim C5. For a streaming request the chunks produced by \<open>routeStreamingRequest\<close> are
  the chunks received from the backend, each normalised (id, created, model, and for each
  choice its index, delta role and content, finish reason), in the order received, none
  dropped and none added. One call is made, to the selected client; when the stream
  breaks, or the call itself throws, the thrown value reaches the caller and no other
  call follows.
\<close>

theorem routeStreamingRequest_forwards:
  fixes config :: router_config and classify :: classifier and be :: "'s backend"
    and request :: chat_completion_request and w :: "'s world"
  defines "cl \<equiv> classify (messages request) (thresholds config)"
  defines "client \<equiv> if usePowerModel cl then PowerClient else DefaultClient"
  defines "p \<equiv> params_for (if usePowerModel cl then powerModel config else defaultModel config)
                  request True"
  shows
    "(create_stream be client p (backend_state w) = (Inr up, sa)
      \<longrightarrow> routeStreamingRequest config classify be request w
            = (\<lparr>yielded = map normalize_chunk (received up), thrown_value = broken_by up\<rparr>,
               \<lparr>backend_state = sa, calls = calls w @ [(client, p)]\<rparr>)
          \<and> length (yielded (fst (routeStreamingRequest config classify be request w)))
            = length (received up)
          \<and> (\<forall>i < length (received up).
                yielded (fst (routeStreamingRequest config classify be request w)) ! i
                  = normalize_chunk (received up ! i)))
     \<and> (create_stream be client p (backend_state w) = (Inl e, sa)
      \<longrightarrow> routeStreamingRequest config classify be request w
            = (\<lparr>yielded = [], thrown_value = Some e\<rparr>,
               \<lparr>backend_state = sa, calls = calls w @ [(client, p)]\<rparr>))
     \<and> chunk_id (normalize_chunk c) = uc_id c
     \<and> chunk_created (normalize_chunk c) = uc_created c
     \<and> chunk_model (normalize_chunk c) = uc_model c
     \<and> map stream_index (chunk_choices (normalize_chunk c)) = map uc_index (uc_choices c)
     \<and> map delta_role (chunk_choices (normalize_chunk c)) = map uc_role (uc_choices c)
     \<and> map delta_content (chunk_choices (normalize_chunk c))
         = map (\<lambda>ch. case uc_content ch of Present s \<Rightarrow> Some s | Null \<Rightarrow> None | Absent \<Rightarrow> None)
             (uc_choices c)
     \<and> map stream_finish_reason (chunk_choices (normalize_chunk c))
         = map uc_finish_reason (uc_choices c)"
  unfolding cl_def client_def p_def
  by (simp add: routeStreamingRequest_def call_create_stream_def Let_def forward_chunks_map
      normalize_chunk_def normalize_stream_choice_def comp_def)

theorem routeStreamingRequest_forwards_witness:
  "routeStreamingRequest sample_config classifyRequest_enfr
     (scripted (Inr sample_completion) (Inr sample_completion) (Inr sample_upstream)
        (Inr sample_upstream)) sample_request fresh_world
   = (\<lparr>yielded =
         [\<lparr>chunk_id = ''c1'', chunk_created = 1, chunk_model = ''qwen3:14b'',
           chunk_choices = [\<lparr>stream_index = 0, delta_role = Some ''assistant'',
                             delta_content = Some ''Hel'', stream_finish_reason = None\<rparr>]\<rparr>,
          \<lparr>chunk_id = ''c1'', chunk_created = 1, chunk_model = ''qwen3:14b'',
           chunk_choices = [\<lparr>stream_index = 0, delta_role = None,
                             delta_content = None, stream_finish_reason = None\<rparr>]\<rparr>],
       thrown_value = Some (ErrorInstance ''socket hang up'')\<rparr>,
      \<lparr>backend_state = 1,
       calls = [(DefaultClient, params_for (defaultModel sample_config) sample_request True)]\<rparr>)"
  using
    routeStreamingRequest_forwards [where config = sample_config
      and classify = classifyRequest_enfr and request = sample_request and w = fresh_world
      and be = "scripted (Inr sample_completion) (Inr sample_completion) (Inr sample_upstream)
        (Inr sample_upstream)" and up = sample_upstream and sa = 1]
  by (simp add: sample_request_classified scripted_def fresh_world_def sample_config_def
      sample_upstream_def normalize_chunk_def normalize_stream_choice_def)



section \<open>The unit tests of the repository\<close>

text \<open>The expectations of the classifier's unit tests that fit in a short text, checked
  on the model (both revisions where the scorer is involved).\<close>

lemma unit_test_extractTextContent:
  "extractTextContent [\<lparr>role = User, content = StringContent ''Hello world''\<rparr>,
                       \<lparr>role = Assistant, content = StringContent ''Hi there!''\<rparr>]
     = ''Hello world\<newline>Hi there!''"
  "extractTextContent
     [\<lparr>role = User, content = ArrayContent
         [TextPart ''Check this image'', ImageUrlPart ''http://example.com/img.png'']\<rparr>]
     = ''Check this image''"
  by code_simp+

lemma unit_test_countCodeLines:
  "3 \<le> countCodeLines
     (''\<newline>Here is some code:\<newline>```typescript\<newline>function hello() {\<newline>''
      @ ''  console.log('world');\<newline>}\<newline>```\<newline>    '')"
  "4 \<le> countCodeLines
     (''\<newline>```js\<newline>const a = 1;\<newline>const b = 2;\<newline>```\<newline>\<newline>And more:\<newline>\<newline>''
      @ ''```python\<newline>def foo():\<newline>    return 42\<newline>```\<newline>    '')"
  "countCodeLines ''Just some regular text without any code.'' = 0"
  by code_simp+

lemma unit_test_countKeywordMatches:
  "countKeywordMatches ''I need to refactor the architecture and debug this issue''
     [''refactor'', ''architecture'', ''debug'', ''optimize''] = 3"
  "countKeywordMatches ''REFACTOR the Architecture'' [''refactor'', ''architecture''] = 2"
  "countKeywordMatches ''Hello world'' [''refactor'', ''debug''] = 0"
  by code_simp+

lemma unit_test_detectMultiStepReasoning:
  "detectMultiStepReasoning ''First we need to analyze, then implement''"
  "detectMultiStepReasoning ''Step 1: Do this''"
  "detectMultiStepReasoning ''Compare React and Vue''"
  "\<not> detectMultiStepReasoning ''Hello world''"
  "detectMultiStepReasoning_enfr ''First we need to analyze, then implement''"
  "detectMultiStepReasoning_enfr ''Step 1: Do this''"
  "detectMultiStepReasoning_enfr ''Compare React and Vue''"
  "\<not> detectMultiStepReasoning_enfr ''Hello world''"
  by code_simp+

lemma unit_test_detectDebugging:
  "detectDebugging ''Error: Cannot read property of undefined''"
  "detectDebugging ''My code is not working''"
  "detectDebugging ''Can you fix this bug?''"
  "\<not> detectDebugging ''Create a new function''"
  "detectDebugging_enfr ''Error: Cannot read property of undefined''"
  "detectDebugging_enfr ''My code is not working''"
  "detectDebugging_enfr ''Can you fix this bug?''"
  "\<not> detectDebugging_enfr ''Create a new function''"
  by code_simp+

lemma unit_test_calculateComplexityScore:
  "score (calculateComplexityScore ''Hello, how are you?'' default_thresholds) < 30"
  "score (calculateComplexityScore_enfr ''Hello, how are you?'' default_thresholds) < 30"
  "list_ex (prefix ''power_keywords:'')
     (signals (calculateComplexityScore
        ''Help me architect a distributed system with good scalability'' default_thresholds))"
  "list_ex (prefix ''power_keywords:'')
     (signals (calculateComplexityScore_enfr
        ''Help me architect a distributed system with good scalability'' default_thresholds))"
  by code_simp+

lemma unit_test_classifyRequest:
  "\<not> usePowerModel (classifyRequest
        [\<lparr>role = User, content = StringContent ''What time is it?''\<rparr>] default_thresholds)"
  "score (classifyRequest
        [\<lparr>role = User, content = StringContent ''What time is it?''\<rparr>] default_thresholds) < 50"
  "\<not> usePowerModel (classifyRequest_enfr
        [\<lparr>role = User, content = StringContent ''What time is it?''\<rparr>] default_thresholds)"
  "score (classifyRequest_enfr
        [\<lparr>role = User, content = StringContent ''What time is it?''\<rparr>] default_thresholds) < 50"
  by code_simp+


end
